theory Spec2Isabelle
  imports Complex_Main "HOL-Library.Multiset"
begin

section \<open>Errors and two-dimensional arrays\<close>

text \<open>
  The exceptions that the modelled part of \<^verbatim>\<open>dataset.py\<close> can raise. A failing
  \<^verbatim>\<open>assert\<close> is \<open>AssertionError\<close>; the others are raised by Python and numpy
  themselves (a missing dictionary key, an axis or a boolean mask that does not fit, pad
  widths below zero, arithmetic on \<^verbatim>\<open>None\<close>).
\<close>

datatype error = AssertionError | ValueError | IndexError | KeyError | TypeError | AttributeError

text \<open>
  Every array the transforms handle is two-dimensional. It is kept as the list of its
  rows together with the length of axis 1, so that the shapes \<open>(0, n)\<close> and \<open>(n, 0)\<close>
  stay apart; the length of axis 0 is the number of rows.
\<close>

record 'a ndarray =
  shape1 :: nat
  rows :: "'a list list"

definition shape0 :: "'a ndarray \<Rightarrow> nat" where
  "shape0 m = length (rows m)"

definition valid_ndarray :: "'a ndarray \<Rightarrow> bool" where
  "valid_ndarray m \<longleftrightarrow> (\<forall>r \<in> set (rows m). length r = shape1 m)"

definition item :: "'a ndarray \<Rightarrow> nat \<Rightarrow> nat \<Rightarrow> 'a" where
  "item m i j = rows m ! i ! j"

text \<open>\<^verbatim>\<open>data.shape[axis]\<close>: a tuple of length two accepts the indices -2 .. 1.\<close>

definition shape_at :: "'a ndarray \<Rightarrow> int \<Rightarrow> error + nat" where
  "shape_at m axis =
     (if axis = 0 \<or> axis = -2 then Inr (shape0 m)
      else if axis = 1 \<or> axis = -1 then Inr (shape1 m)
      else Inl IndexError)"

text \<open>
  Python's slice \<^verbatim>\<open>xs[st:en]\<close>: a negative bound counts from the end, and both
  bounds are clamped to the length.
\<close>

definition slice_index :: "int \<Rightarrow> nat \<Rightarrow> nat" where
  "slice_index i n = (if i < 0 then nat (max 0 (i + int n)) else min (nat i) n)"

definition py_slice :: "int \<Rightarrow> int \<Rightarrow> 'a list \<Rightarrow> 'a list" where
  "py_slice st en xs =
     (let s = slice_index st (length xs); e = slice_index en (length xs)
      in take (e - s) (drop s xs))"

text \<open>
  \<^verbatim>\<open>numpy.split(data, [a, b], axis=axis)[1]\<close>. numpy cuts at the division points
  \<open>[0, a, b, n]\<close> and returns the pieces \<^verbatim>\<open>sary[st:end]\<close> taken with Python
  slices along the axis; the piece of index 1 is \<^verbatim>\<open>[a:b]\<close>.
\<close>

definition numpy_split_1 :: "'a ndarray \<Rightarrow> int \<Rightarrow> int \<Rightarrow> int \<Rightarrow> error + 'a ndarray" where
  "numpy_split_1 m a b axis =
     (if axis = 0 \<or> axis = -2 then Inr (m\<lparr>rows := py_slice a b (rows m)\<rparr>)
      else if axis = 1 \<or> axis = -1 then
        Inr \<lparr>shape1 = slice_index b (shape1 m) - slice_index a (shape1 m),
             rows = map (py_slice a b) (rows m)\<rparr>
      else Inl IndexError)"

section \<open>Cropping\<close>

text \<open>
  \<^verbatim>\<open>
  class FirstCropProcess(BaseDataProcess):
      def __init__(self, crop_size: int, time_axis: int = 1): ...
      def __call__(self, data: numpy.ndarray, test=None):
          return numpy.split(data, [0, self._crop_size], axis=self._time_axis)[1]
  \<close>
\<close>

definition FirstCropProcess :: "int \<Rightarrow> int \<Rightarrow> 'a ndarray \<Rightarrow> bool \<Rightarrow> error + 'a ndarray" where
  "FirstCropProcess crop_size time_axis data test = numpy_split_1 data 0 crop_size time_axis"

text \<open>
  The argument of the two seeded transforms is the mapping
  \<^verbatim>\<open>dict(data=..., seed=...)\<close> that the pipeline builds for them.
\<close>

record ('a, 's) datas =
  datas_data :: "'a ndarray"
  datas_seed :: 's

text \<open>
  \<^verbatim>\<open>numpy.random.RandomState(seed).randint(high)\<close>: the first draw of a generator
  made from the seed. The generator belongs to numpy, so the draw is the parameter
  \<open>rng\<close>, a function of the seed and the bound; numpy refuses a bound that is not
  positive.
\<close>

definition RandomState_randint :: "('s \<Rightarrow> int \<Rightarrow> int) \<Rightarrow> 's \<Rightarrow> int \<Rightarrow> error + int" where
  "RandomState_randint rng seed high = (if high \<le> 0 then Inl ValueError else Inr (rng seed high))"

text \<open>
  \<^verbatim>\<open>
  class RandomCropProcess(BaseDataProcess):
      def __call__(self, datas: Dict[str, any], test=True):
          assert not test
          data, seed = datas['data'], datas['seed']
          random = numpy.random.RandomState(seed)
          len_time = data.shape[self._time_axis]
          assert len_time >= self._crop_size
          start = random.randint(len_time - self._crop_size + 1)
          return numpy.split(data, [start, start + self._crop_size], axis=self._time_axis)[1]
  \<close>
\<close>

definition RandomCropProcess ::
  "int \<Rightarrow> int \<Rightarrow> ('s \<Rightarrow> int \<Rightarrow> int) \<Rightarrow> ('a, 's) datas \<Rightarrow> bool \<Rightarrow> error + 'a ndarray" where
  "RandomCropProcess crop_size time_axis rng datas test =
     (if test then Inl AssertionError
      else
        let data = datas_data datas; seed = datas_seed datas in
        case shape_at data time_axis of
          Inl e \<Rightarrow> Inl e
        | Inr len_time \<Rightarrow>
            if \<not> int len_time \<ge> crop_size then Inl AssertionError
            else
              (case RandomState_randint rng seed (int len_time - crop_size + 1) of
                 Inl e \<Rightarrow> Inl e
               | Inr start \<Rightarrow> numpy_split_1 data start (start + crop_size) time_axis))"

section \<open>Padding\<close>

text \<open>
  \<^verbatim>\<open>numpy.pad(data, ((0, 0), (pre, post)), mode='constant')\<close>: zeros before and
  after every row; numpy refuses a negative width.
\<close>

definition numpy_pad :: "'a::zero ndarray \<Rightarrow> int \<Rightarrow> int \<Rightarrow> error + 'a ndarray" where
  "numpy_pad m pre post =
     (if pre < 0 \<or> post < 0 then Inl ValueError
      else Inr \<lparr>shape1 = nat pre + shape1 m + nat post,
                rows = map (\<lambda>r. replicate (nat pre) 0 @ r @ replicate (nat post) 0) (rows m)\<rparr>)"

text \<open>
  \<^verbatim>\<open>
  class RandomPaddingProcess(BaseDataProcess):
      def __init__(self, min_size: int, time_axis: int = 1):
          assert time_axis == 1
          ...
      def __call__(self, datas: Dict[str, any], test=True):
          assert not test
          data, seed = datas['data'], datas['seed']
          random = numpy.random.RandomState(seed)
          if data.shape[self._time_axis] >= self._min_size:
              return data
          pre = random.randint(self._min_size - data.shape[self._time_axis] + 1)
          post = self._min_size - pre
          return numpy.pad(data, ((0, 0), (pre, post)), mode='constant')
  \<close>
  The constructor's assertion comes first; after it the time axis is axis 1.
\<close>

definition RandomPaddingProcess ::
  "int \<Rightarrow> int \<Rightarrow> ('s \<Rightarrow> int \<Rightarrow> int) \<Rightarrow> ('a::zero, 's) datas \<Rightarrow> bool \<Rightarrow> error + 'a ndarray" where
  "RandomPaddingProcess min_size time_axis rng datas test =
     (if time_axis \<noteq> 1 then Inl AssertionError
      else if test then Inl AssertionError
      else
        let data = datas_data datas; seed = datas_seed datas in
        if int (shape1 data) \<ge> min_size then Inr data
        else
          (case RandomState_randint rng seed (min_size - int (shape1 data) + 1) of
             Inl e \<Rightarrow> Inl e
           | Inr pre \<Rightarrow> let post = min_size - pre in numpy_pad data pre post))"

text \<open>
  \<^verbatim>\<open>
  class LastPaddingProcess(BaseDataProcess):
      def __init__(self, min_size: int, time_axis: int = 1):
          assert time_axis == 1
          ...
      def __call__(self, data: numpy.ndarray, test=None):
          if data.shape[self._time_axis] >= self._min_size:
              return data
          pre = self._min_size - data.shape[self._time_axis]
          return numpy.pad(data, ((0, 0), (pre, 0)), mode='constant')
  \<close>
\<close>

definition LastPaddingProcess :: "int \<Rightarrow> int \<Rightarrow> 'a::zero ndarray \<Rightarrow> bool \<Rightarrow> error + 'a ndarray" where
  "LastPaddingProcess min_size time_axis data test =
     (if time_axis \<noteq> 1 then Inl AssertionError
      else if int (shape1 data) \<ge> min_size then Inr data
      else let pre = min_size - int (shape1 data) in numpy_pad data pre 0)"

section \<open>Additive noise\<close>

text \<open>
  \<^verbatim>\<open>
  class AddNoiseProcess(BaseDataProcess):
      def __init__(self, p_global: float = None, p_local: float = None):
          assert p_global is None or 0 <= p_global
          assert p_local is None or 0 <= p_local
          ...
      def __call__(self, data: numpy.ndarray, test):
          assert not test
          g = numpy.random.randn() * self._p_global
          l = numpy.random.randn(*data.shape).astype(data.dtype) * self._p_local
          return data + g + l
  \<close>
  The draws come from numpy's global generator; they are the parameters \<open>randn_g\<close>
  (the scalar) and \<open>randn_l\<close> (one value for each position). A scale left at
  \<^verbatim>\<open>None\<close> makes the product a type error.
\<close>

definition AddNoiseProcess ::
  "real option \<Rightarrow> real option \<Rightarrow> real \<Rightarrow> (nat \<Rightarrow> nat \<Rightarrow> real) \<Rightarrow> real ndarray \<Rightarrow> bool
     \<Rightarrow> error + real ndarray" where
  "AddNoiseProcess p_global p_local randn_g randn_l data test =
     (if \<not> (case p_global of None \<Rightarrow> True | Some p \<Rightarrow> 0 \<le> p) then Inl AssertionError
      else if \<not> (case p_local of None \<Rightarrow> True | Some p \<Rightarrow> 0 \<le> p) then Inl AssertionError
      else if test then Inl AssertionError
      else
        (case p_global of
           None \<Rightarrow> Inl TypeError
         | Some pg \<Rightarrow>
             (case p_local of
                None \<Rightarrow> Inl TypeError
              | Some pl \<Rightarrow>
                  let g = randn_g * pg in
                  Inr \<lparr>shape1 = shape1 data,
                       rows = map (\<lambda>i. map (\<lambda>j. rows data ! i ! j + g + randn_l i j * pl)
                                          [0 ..< shape1 data])
                                [0 ..< shape0 data]\<rparr>)))"

section \<open>Shape alignment\<close>

text \<open>
  \<^verbatim>\<open>
  class ShapeAlignProcess(BaseDataProcess):
      def __call__(self, data, test):
          data1, data2, data3 = data['input'], data['target'], data['mask']
          m = max(data1.shape[1], data2.shape[1], data3.shape[1])
          data1 = numpy.pad(data1, ((0, 0), (0, m - data1.shape[1])), mode='constant')
          data2 = numpy.pad(data2, ((0, 0), (0, m - data2.shape[1])), mode='constant')
          data3 = numpy.pad(data3, ((0, 0), (0, m - data3.shape[1])), mode='constant')
          data['input'], data['target'], data['mask'] = data1, data2, data3
          return data
  \<close>
  The transform stores into the dictionary it was given and returns that same object. To
  keep this visible, dictionaries live in a store: a reference is a number, the store
  gives the dictionary a reference holds, and the transform takes the store and the
  reference and returns the new store and the reference it returns. The tensors are kept
  by value: \<^verbatim>\<open>numpy.pad\<close> builds new arrays and nothing here writes into one.
\<close>

type_synonym ref = nat

type_synonym 'a dict_store = "ref \<Rightarrow> (string \<rightharpoonup> 'a ndarray)"

definition ShapeAlignProcess ::
  "'a::zero dict_store \<Rightarrow> ref \<Rightarrow> bool \<Rightarrow> error + ('a dict_store \<times> ref)" where
  "ShapeAlignProcess store data test =
     (case store data ''input'' of
        None \<Rightarrow> Inl KeyError
      | Some data1 \<Rightarrow>
     (case store data ''target'' of
        None \<Rightarrow> Inl KeyError
      | Some data2 \<Rightarrow>
     (case store data ''mask'' of
        None \<Rightarrow> Inl KeyError
      | Some data3 \<Rightarrow>
          let m = max (max (shape1 data1) (shape1 data2)) (shape1 data3) in
          (case numpy_pad data1 0 (int m - int (shape1 data1)) of
             Inl e \<Rightarrow> Inl e
           | Inr data1' \<Rightarrow>
          (case numpy_pad data2 0 (int m - int (shape1 data2)) of
             Inl e \<Rightarrow> Inl e
           | Inr data2' \<Rightarrow>
          (case numpy_pad data3 0 (int m - int (shape1 data3)) of
             Inl e \<Rightarrow> Inl e
           | Inr data3' \<Rightarrow>
               Inr (store(data := (store data)(''input'' \<mapsto> data1', ''target'' \<mapsto> data2',
                                              ''mask'' \<mapsto> data3')),
                    data)))))))"

text \<open>
  A store for the examples: reference 0 holds a dictionary with an input of time length
  1 and a target and a mask of time length 2; every other reference holds an empty one.
\<close>

definition example_store :: "int dict_store" where
  "example_store =
     (\<lambda>r. Map.empty)(0 := [''input'' \<mapsto> \<lparr>shape1 = 1, rows = [[7]]\<rparr>,
                           ''target'' \<mapsto> \<lparr>shape1 = 2, rows = [[8, 9]]\<rparr>,
                           ''mask'' \<mapsto> \<lparr>shape1 = 2, rows = [[1, 1]]\<rparr>])"

section \<open>Acoustic features\<close>

text \<open>
  \<^verbatim>\<open>AcousticFeature\<close> is declared in another module of the package; this file builds it
  with its five keyword arguments and reads the five attributes. A field holds whatever
  the caller puts there, so the record is polymorphic in what the four numeric fields and
  the voiced flag hold. For the encoded tensors, where a field is an array or the scalar
  \<^verbatim>\<open>numpy.nan\<close>, the content of a field is a \<open>field\<close>.
\<close>

datatype 'a field = Arr "'a ndarray" | Nan

record ('f, 'v) AcousticFeature =
  f0 :: 'f
  spectrogram :: 'f
  aperiodicity :: 'f
  mfcc :: 'f
  voiced :: 'v

text \<open>
  What reading an attribute of a feature can give: one of the four numeric fields, the
  voiced field, or another attribute of the class (a method, say). The same type holds
  what a dictionary of such values gives for an absent key under the default
  \<^verbatim>\<open>numpy.nan\<close>.
\<close>

datatype ('f, 'v) object = Numeric 'f | Flags 'v | Other | Not_a_number

text \<open>
  \<^verbatim>\<open>getattr(feature, t)\<close>. The class is declared elsewhere, so which names it has
  besides the five fields is the parameter \<open>attrs\<close>; for any other name Python raises
  the attribute error.
\<close>

definition has_field :: "string \<Rightarrow> bool" where
  "has_field t \<longleftrightarrow> t \<in> set [''f0'', ''spectrogram'', ''aperiodicity'', ''mfcc'', ''voiced'']"

definition getattr :: "(string \<Rightarrow> bool) \<Rightarrow> ('f, 'v) AcousticFeature \<Rightarrow> string \<Rightarrow> error + ('f, 'v) object" where
  "getattr attrs feature t =
     (if t = ''f0'' then Inr (Numeric (f0 feature))
      else if t = ''spectrogram'' then Inr (Numeric (spectrogram feature))
      else if t = ''aperiodicity'' then Inr (Numeric (aperiodicity feature))
      else if t = ''mfcc'' then Inr (Numeric (mfcc feature))
      else if t = ''voiced'' then Inr (Flags (voiced feature))
      else if attrs t then Inr Other
      else Inl AttributeError)"

text \<open>
  \<^verbatim>\<open>
  class DistillateUsingFeatureProcess(BaseDataProcess):
      def __call__(self, feature: AcousticFeature, test=None):
          d = defaultdict(lambda: numpy.nan, **{t: getattr(feature, t) for t in self._targets})
          return AcousticFeature(
              f0=d['f0'], spectrogram=d['spectrogram'], aperiodicity=d['aperiodicity'],
              mfcc=d['mfcc'], voiced=d['voiced'],
          )
  \<close>
  \<open>targets_dict\<close> is the dictionary comprehension: the targets are read from left to
  right into the dictionary, a later entry replacing an earlier one of the same name, and
  the first name that is no attribute ends it. \<open>defaultdict_getitem\<close> is \<^verbatim>\<open>d[k]\<close>
  of the default dictionary. The fields of the result hold what these lookups give.
\<close>

fun targets_dict ::
  "(string \<Rightarrow> bool) \<Rightarrow> ('f, 'v) AcousticFeature \<Rightarrow> string list \<Rightarrow> (string \<rightharpoonup> ('f, 'v) object)
     \<Rightarrow> error + (string \<rightharpoonup> ('f, 'v) object)" where
  "targets_dict attrs feature [] d = Inr d"
| "targets_dict attrs feature (t # ts) d =
     (case getattr attrs feature t of
        Inl e \<Rightarrow> Inl e
      | Inr x \<Rightarrow> targets_dict attrs feature ts (d(t \<mapsto> x)))"

definition defaultdict_getitem :: "(string \<rightharpoonup> ('f, 'v) object) \<Rightarrow> string \<Rightarrow> ('f, 'v) object" where
  "defaultdict_getitem d k = (case d k of None \<Rightarrow> Not_a_number | Some x \<Rightarrow> x)"

definition DistillateUsingFeatureProcess ::
  "(string \<Rightarrow> bool) \<Rightarrow> string list \<Rightarrow> ('f, 'v) AcousticFeature \<Rightarrow> bool
     \<Rightarrow> error + (('f, 'v) object, ('f, 'v) object) AcousticFeature" where
  "DistillateUsingFeatureProcess attrs targets feature test =
     (case targets_dict attrs feature targets Map.empty of
        Inl e \<Rightarrow> Inl e
      | Inr d \<Rightarrow>
          Inr \<lparr>f0 = defaultdict_getitem d ''f0'',
               spectrogram = defaultdict_getitem d ''spectrogram'',
               aperiodicity = defaultdict_getitem d ''aperiodicity'',
               mfcc = defaultdict_getitem d ''mfcc'',
               voiced = defaultdict_getitem d ''voiced''\<rparr>)"

text \<open>
  \<^verbatim>\<open>numpy.shape(x)\<close> of what a field of such a result holds: the two lengths of an
  array, and the empty shape of a scalar or of any other object.
\<close>

definition numpy_shape :: "('a ndarray, 'b ndarray) object \<Rightarrow> nat list" where
  "numpy_shape x =
     (case x of
        Numeric a \<Rightarrow> [shape0 a, shape1 a]
      | Flags a \<Rightarrow> [shape0 a, shape1 a]
      | Other \<Rightarrow> []
      | Not_a_number \<Rightarrow> [])"

text \<open>A feature of two frames for the examples.\<close>

definition example_loaded :: "(int ndarray, bool ndarray) AcousticFeature" where
  "example_loaded =
     \<lparr>f0 = \<lparr>shape1 = 1, rows = [[100], [0]]\<rparr>,
      spectrogram = \<lparr>shape1 = 2, rows = [[1, 2], [3, 4]]\<rparr>,
      aperiodicity = \<lparr>shape1 = 2, rows = [[5, 6], [7, 8]]\<rparr>,
      mfcc = \<lparr>shape1 = 1, rows = [[9], [10]]\<rparr>,
      voiced = \<lparr>shape1 = 1, rows = [[True], [False]]\<rparr>\<rparr>"

text \<open>
  The other attributes for the examples: the two methods that this file calls on a
  feature.
\<close>

definition example_attrs :: "string \<Rightarrow> bool" where
  "example_attrs t \<longleftrightarrow> t \<in> set [''validate'', ''astype'']"

section \<open>Encoding and decoding\<close>

text \<open>
  \<^verbatim>\<open>numpy.concatenate(arrays, axis=1)\<close>: numpy refuses an empty list, a member that
  is no two-dimensional array (the scalar \<^verbatim>\<open>numpy.nan\<close>, or an attribute that is no
  field; \<open>arrays_of\<close> is \<open>None\<close> then), and arrays that differ in the length of axis 0;
  otherwise row \<open>i\<close> of the result is the rows \<open>i\<close> of the arrays, one after the other.
\<close>

fun arrays_of :: "('a field, 'a field) object list \<Rightarrow> 'a ndarray list option" where
  "arrays_of [] = Some []"
| "arrays_of (Numeric (Arr a) # fs) = (case arrays_of fs of None \<Rightarrow> None | Some as \<Rightarrow> Some (a # as))"
| "arrays_of (Flags (Arr a) # fs) = (case arrays_of fs of None \<Rightarrow> None | Some as \<Rightarrow> Some (a # as))"
| "arrays_of (Numeric Nan # fs) = None"
| "arrays_of (Flags Nan # fs) = None"
| "arrays_of (Other # fs) = None"
| "arrays_of (Not_a_number # fs) = None"

definition numpy_concatenate :: "('a field, 'a field) object list \<Rightarrow> error + 'a ndarray" where
  "numpy_concatenate fs =
     (case arrays_of fs of
        None \<Rightarrow> Inl ValueError
      | Some [] \<Rightarrow> Inl ValueError
      | Some (a # as) \<Rightarrow>
          if \<not> list_all (\<lambda>b. shape0 b = shape0 a) as then Inl ValueError
          else Inr \<lparr>shape1 = sum_list (map shape1 (a # as)),
                    rows = map (\<lambda>i. concat (map (\<lambda>m. rows m ! i) (a # as))) [0 ..< shape0 a]\<rparr>)"

text \<open>\<^verbatim>\<open>data.T\<close>, the transpose.\<close>

definition numpy_T :: "'a ndarray \<Rightarrow> 'a ndarray" where
  "numpy_T m = \<lparr>shape1 = shape0 m, rows = map (\<lambda>j. map (\<lambda>r. r ! j) (rows m)) [0 ..< shape1 m]\<rparr>"

text \<open>\<^verbatim>\<open>data[:, bef:aft]\<close>.\<close>

definition getitem_cols :: "'a ndarray \<Rightarrow> int \<Rightarrow> int \<Rightarrow> 'a ndarray" where
  "getitem_cols m bef aft =
     \<lparr>shape1 = slice_index aft (shape1 m) - slice_index bef (shape1 m),
      rows = map (py_slice bef aft) (rows m)\<rparr>"

text \<open>
  \<^verbatim>\<open>
  class EncodeFeatureProcess(BaseDataProcess):
      def __call__(self, data: AcousticFeature, test):
          feature = numpy.concatenate([getattr(data, t) for t in self._targets], axis=1)
          feature = feature.T
          return feature
  \<close>
  \<open>getattrs\<close> is the list comprehension: the attributes are read from left to right,
  and the first name that is no attribute ends it.
\<close>

fun getattrs ::
  "(string \<Rightarrow> bool) \<Rightarrow> ('f, 'v) AcousticFeature \<Rightarrow> string list \<Rightarrow> error + ('f, 'v) object list" where
  "getattrs attrs data [] = Inr []"
| "getattrs attrs data (t # ts) =
     (case getattr attrs data t of
        Inl e \<Rightarrow> Inl e
      | Inr x \<Rightarrow> (case getattrs attrs data ts of Inl e \<Rightarrow> Inl e | Inr xs \<Rightarrow> Inr (x # xs)))"

definition EncodeFeatureProcess ::
  "(string \<Rightarrow> bool) \<Rightarrow> string list \<Rightarrow> ('a field, 'a field) AcousticFeature \<Rightarrow> bool
     \<Rightarrow> error + 'a ndarray" where
  "EncodeFeatureProcess attrs targets data test =
     (case getattrs attrs data targets of
        Inl e \<Rightarrow> Inl e
      | Inr fs \<Rightarrow>
          (case numpy_concatenate fs of
             Inl e \<Rightarrow> Inl e
           | Inr feature \<Rightarrow> Inr (numpy_T feature)))"

text \<open>
  \<^verbatim>\<open>
  class DecodeFeatureProcess(BaseDataProcess):
      def __init__(self, targets: List[str], sizes: Dict[str, int]):
          assert all(t in sizes for t in targets)
          ...
      def __call__(self, data: numpy.ndarray, test):
          data = data.T
          lens = [self._sizes[t] for t in self._targets]
          assert data.shape[1] == sum(lens)
          d = defaultdict(lambda: numpy.nan, **{
              t: data[:, bef:aft]
              for t, bef, aft in zip(self._targets, [0] + lens[:-1], lens)
          })
          return AcousticFeature(
              f0=d['f0'], spectrogram=d['spectrogram'], aperiodicity=d['aperiodicity'],
              mfcc=d['mfcc'], voiced=d['voiced'],
          )
  \<close>
  The dictionary is filled in the order of the targets, a later entry replacing an
  earlier one of the same name; \<open>decode_lookup\<close> reads it, an absent key giving
  \<^verbatim>\<open>numpy.nan\<close>.
\<close>

definition decode_lookup :: "(string \<rightharpoonup> 'a ndarray) \<Rightarrow> string \<Rightarrow> 'a field" where
  "decode_lookup d k = (case d k of None \<Rightarrow> Nan | Some a \<Rightarrow> Arr a)"

definition DecodeFeatureProcess ::
  "string list \<Rightarrow> (string \<rightharpoonup> int) \<Rightarrow> 'a ndarray \<Rightarrow> bool
     \<Rightarrow> error + ('a field, 'a field) AcousticFeature" where
  "DecodeFeatureProcess targets sizes data test =
     (if \<not> list_all (\<lambda>t. sizes t \<noteq> None) targets then Inl AssertionError
      else
        let data = numpy_T data;
            lens = map (\<lambda>t. the (sizes t)) targets
        in
        if int (shape1 data) \<noteq> sum_list lens then Inl AssertionError
        else
          let d = fold (\<lambda>(t, bef, aft) d. d(t \<mapsto> getitem_cols data bef aft))
                       (zip targets (zip ([0] @ butlast lens) lens)) Map.empty
          in
          Inr \<lparr>f0 = decode_lookup d ''f0'',
               spectrogram = decode_lookup d ''spectrogram'',
               aperiodicity = decode_lookup d ''aperiodicity'',
               mfcc = decode_lookup d ''mfcc'',
               voiced = decode_lookup d ''voiced''\<rparr>)"

section \<open>The split into train and test paths\<close>

text \<open>
  The end of \<^verbatim>\<open>create\<close>:
  \<^verbatim>\<open>
  input_paths = list(sorted([Path(p) for p in glob.glob(str(config.input_glob))]))
  target_paths = list(sorted([Path(p) for p in glob.glob(str(config.target_glob))]))
  assert len(input_paths) == len(target_paths)
  ...
  num_test = config.num_test
  pairs = [
      dict(input_path=input_path, target_path=target_path)
      for input_path, target_path in zip(input_paths, target_paths)
  ]
  numpy.random.RandomState(config.seed).shuffle(pairs)
  train_paths = pairs[num_test:]
  test_paths = pairs[:num_test]
  train_for_evaluate_paths = train_paths[:num_test]
  \<close>
  The function is modelled up to the three path lists that the three datasets are built
  on. The two file listings are its inputs; a path is a value of an ordered type. The
  shuffle of numpy's seeded generator is the parameter \<open>shuffle\<close>, a function of the
  seed and the list. The loading of the moments and the assembly of the pipelines, which
  stand between the assertion and the split, are left out.
\<close>

record 'p path_split =
  train_paths :: "('p \<times> 'p) list"
  test_paths :: "('p \<times> 'p) list"
  train_for_evaluate_paths :: "('p \<times> 'p) list"

definition create ::
  "('s \<Rightarrow> ('p \<times> 'p) list \<Rightarrow> ('p \<times> 'p) list) \<Rightarrow> 's \<Rightarrow> int \<Rightarrow> 'p::linorder list \<Rightarrow> 'p list
     \<Rightarrow> error + 'p path_split" where
  "create shuffle seed num_test input_glob target_glob =
     (let input_paths = sort input_glob;
          target_paths = sort target_glob
      in
      if length input_paths \<noteq> length target_paths then Inl AssertionError
      else
        let pairs = shuffle seed (zip input_paths target_paths);
            train = drop (slice_index num_test (length pairs)) pairs;
            test = take (slice_index num_test (length pairs)) pairs;
            train_for_evaluate = take (slice_index num_test (length train)) train
        in
        Inr \<lparr>train_paths = train, test_paths = test,
             train_for_evaluate_paths = train_for_evaluate\<rparr>)"

section \<open>Normalization\<close>

text \<open>
  Arithmetic is over the real numbers: the rounding of the floating-point operations is
  outside the model, and so are not-a-number and the infinities (these transforms are
  modelled on features whose fields are arrays).

  An array built position by position; numpy's element-wise operations are written
  with it.
\<close>

definition tabulate :: "nat \<Rightarrow> nat \<Rightarrow> (nat \<Rightarrow> nat \<Rightarrow> 'a) \<Rightarrow> 'a ndarray" where
  "tabulate r c f = \<lparr>shape1 = c, rows = map (\<lambda>i. map (f i) [0 ..< c]) [0 ..< r]\<rparr>"

text \<open>
  numpy's broadcasting of two two-dimensional operands: along each axis the lengths are
  equal or one of them is 1, and an axis of length 1 is read at index 0 throughout.
\<close>

definition broadcast_shape :: "nat \<Rightarrow> nat \<Rightarrow> nat option" where
  "broadcast_shape a b =
     (if a = b then Some a else if a = 1 then Some b else if b = 1 then Some a else None)"

definition broadcast_index :: "nat \<Rightarrow> nat \<Rightarrow> nat" where
  "broadcast_index n i = (if n = 1 then 0 else i)"

definition broadcast_item :: "'a ndarray \<Rightarrow> nat \<Rightarrow> nat \<Rightarrow> 'a" where
  "broadcast_item m i j = item m (broadcast_index (shape0 m) i) (broadcast_index (shape1 m) j)"

definition numpy_binary :: "('a \<Rightarrow> 'b \<Rightarrow> 'c) \<Rightarrow> 'a ndarray \<Rightarrow> 'b ndarray \<Rightarrow> error + 'c ndarray" where
  "numpy_binary f x y =
     (case broadcast_shape (shape0 x) (shape0 y) of
        None \<Rightarrow> Inl ValueError
      | Some r \<Rightarrow>
          (case broadcast_shape (shape1 x) (shape1 y) of
             None \<Rightarrow> Inl ValueError
           | Some c \<Rightarrow>
               Inr (tabulate r c (\<lambda>i j. f (broadcast_item x i j) (broadcast_item y i j)))))"

text \<open>\<^verbatim>\<open>numpy.sqrt(a)\<close> and \<^verbatim>\<open>~a\<close>, element by element.\<close>

definition numpy_sqrt :: "real ndarray \<Rightarrow> real ndarray" where
  "numpy_sqrt a = tabulate (shape0 a) (shape1 a) (\<lambda>i j. sqrt (item a i j))"

definition numpy_invert :: "bool ndarray \<Rightarrow> bool ndarray" where
  "numpy_invert a = tabulate (shape0 a) (shape1 a) (\<lambda>i j. \<not> item a i j)"

text \<open>
  \<^verbatim>\<open>a[mask] = v\<close> with a two-dimensional boolean mask. A mask of the shape of the
  array writes \<open>v\<close> where it is true. numpy compares the shapes axis by axis and lets an
  axis of the mask pass when its length is 0: such a mask has no element, so nothing is
  written. Any other difference is an index error.
\<close>

definition setitem_mask :: "'a ndarray \<Rightarrow> bool ndarray \<Rightarrow> 'a \<Rightarrow> error + 'a ndarray" where
  "setitem_mask a index v =
     (if (shape0 index \<noteq> 0 \<and> shape0 index \<noteq> shape0 a)
         \<or> (shape1 index \<noteq> 0 \<and> shape1 index \<noteq> shape1 a) then Inl IndexError
      else if shape0 index = shape0 a \<and> shape1 index = shape1 a then
        Inr (tabulate (shape0 a) (shape1 a) (\<lambda>i j. if item index i j then v else item a i j))
      else Inr a)"

text \<open>
  \<^verbatim>\<open>
  class AcousticFeatureNormalizeProcess(BaseDataProcess):
      def __init__(self, mean: AcousticFeature, var: AcousticFeature): ...
      def __call__(self, data: AcousticFeature, test):
          f0 = (data.f0 - self._mean.f0) / numpy.sqrt(self._var.f0)
          f0[~data.voiced] = 0
          return AcousticFeature(
              f0=f0,
              spectrogram=(data.spectrogram - self._mean.spectrogram) / numpy.sqrt(self._var.spectrogram),
              aperiodicity=(data.aperiodicity - self._mean.aperiodicity) / numpy.sqrt(self._var.aperiodicity),
              mfcc=(data.mfcc - self._mean.mfcc) / numpy.sqrt(self._var.mfcc),
              voiced=data.voiced,
          )
  \<close>
  \<open>normalize\<close> is the expression \<^verbatim>\<open>(x - mean) / numpy.sqrt(var)\<close> that the four
  fields share.
\<close>

definition normalize :: "real ndarray \<Rightarrow> real ndarray \<Rightarrow> real ndarray \<Rightarrow> error + real ndarray" where
  "normalize x mean var =
     (case numpy_binary (-) x mean of
        Inl e \<Rightarrow> Inl e
      | Inr d \<Rightarrow> numpy_binary (/) d (numpy_sqrt var))"

definition AcousticFeatureNormalizeProcess ::
  "(real ndarray, 'w) AcousticFeature \<Rightarrow> (real ndarray, 'w) AcousticFeature
     \<Rightarrow> (real ndarray, bool ndarray) AcousticFeature \<Rightarrow> bool
     \<Rightarrow> error + (real ndarray, bool ndarray) AcousticFeature" where
  "AcousticFeatureNormalizeProcess mean var data test =
     (case normalize (f0 data) (f0 mean) (f0 var) of
        Inl e \<Rightarrow> Inl e
      | Inr f0_new \<Rightarrow>
     (case setitem_mask f0_new (numpy_invert (voiced data)) 0 of
        Inl e \<Rightarrow> Inl e
      | Inr f0_set \<Rightarrow>
     (case normalize (spectrogram data) (spectrogram mean) (spectrogram var) of
        Inl e \<Rightarrow> Inl e
      | Inr sp \<Rightarrow>
     (case normalize (aperiodicity data) (aperiodicity mean) (aperiodicity var) of
        Inl e \<Rightarrow> Inl e
      | Inr ap \<Rightarrow>
     (case normalize (mfcc data) (mfcc mean) (mfcc var) of
        Inl e \<Rightarrow> Inl e
      | Inr mc \<Rightarrow>
          Inr \<lparr>f0 = f0_set, spectrogram = sp, aperiodicity = ap, mfcc = mc,
               voiced = voiced data\<rparr>)))))"

text \<open>
  \<^verbatim>\<open>
  class AcousticFeatureDenormalizeProcess(BaseDataProcess):
      def __call__(self, data: AcousticFeature, test):
          f0 = data.f0 * numpy.sqrt(self._var.f0) + self._mean.f0
          f0[~data.voiced] = 0
          return AcousticFeature(
              f0=f0,
              spectrogram=data.spectrogram * numpy.sqrt(self._var.spectrogram) + self._mean.spectrogram,
              aperiodicity=data.aperiodicity * numpy.sqrt(self._var.aperiodicity) + self._mean.aperiodicity,
              mfcc=data.mfcc * numpy.sqrt(self._var.mfcc) + self._mean.mfcc,
              voiced=data.voiced,
          )
  \<close>
  \<open>denormalize\<close> is the expression \<^verbatim>\<open>x * numpy.sqrt(var) + mean\<close>.
\<close>

definition denormalize :: "real ndarray \<Rightarrow> real ndarray \<Rightarrow> real ndarray \<Rightarrow> error + real ndarray" where
  "denormalize x mean var =
     (case numpy_binary (*) x (numpy_sqrt var) of
        Inl e \<Rightarrow> Inl e
      | Inr p \<Rightarrow> numpy_binary (+) p mean)"

definition AcousticFeatureDenormalizeProcess ::
  "(real ndarray, 'w) AcousticFeature \<Rightarrow> (real ndarray, 'w) AcousticFeature
     \<Rightarrow> (real ndarray, bool ndarray) AcousticFeature \<Rightarrow> bool
     \<Rightarrow> error + (real ndarray, bool ndarray) AcousticFeature" where
  "AcousticFeatureDenormalizeProcess mean var data test =
     (case denormalize (f0 data) (f0 mean) (f0 var) of
        Inl e \<Rightarrow> Inl e
      | Inr f0_new \<Rightarrow>
     (case setitem_mask f0_new (numpy_invert (voiced data)) 0 of
        Inl e \<Rightarrow> Inl e
      | Inr f0_set \<Rightarrow>
     (case denormalize (spectrogram data) (spectrogram mean) (spectrogram var) of
        Inl e \<Rightarrow> Inl e
      | Inr sp \<Rightarrow>
     (case denormalize (aperiodicity data) (aperiodicity mean) (aperiodicity var) of
        Inl e \<Rightarrow> Inl e
      | Inr ap \<Rightarrow>
     (case denormalize (mfcc data) (mfcc mean) (mfcc var) of
        Inl e \<Rightarrow> Inl e
      | Inr mc \<Rightarrow>
          Inr \<lparr>f0 = f0_set, spectrogram = sp, aperiodicity = ap, mfcc = mc,
               voiced = voiced data\<rparr>)))))"

text \<open>
  The conditions under which the moments fit a feature: the arrays are well formed, the
  voiced flags have the shape of \<open>f0\<close>, each mean and each variance has, along each axis,
  the length of the field or length 1, and every variance is positive.
\<close>

definition broadcasts_to :: "'a ndarray \<Rightarrow> 'b ndarray \<Rightarrow> bool" where
  "broadcasts_to m x \<longleftrightarrow>
     valid_ndarray m \<and> (shape0 m = shape0 x \<or> shape0 m = 1) \<and> (shape1 m = shape1 x \<or> shape1 m = 1)"

definition positive :: "real ndarray \<Rightarrow> bool" where
  "positive v \<longleftrightarrow> (\<forall>r \<in> set (rows v). \<forall>e \<in> set r. 0 < e)"

definition well_formed_feature :: "(real ndarray, bool ndarray) AcousticFeature \<Rightarrow> bool" where
  "well_formed_feature data \<longleftrightarrow>
     valid_ndarray (f0 data) \<and> valid_ndarray (spectrogram data) \<and> valid_ndarray (aperiodicity data)
     \<and> valid_ndarray (mfcc data) \<and> valid_ndarray (voiced data)
     \<and> shape0 (voiced data) = shape0 (f0 data) \<and> shape1 (voiced data) = shape1 (f0 data)"

definition moments_fit ::
  "(real ndarray, 'w) AcousticFeature \<Rightarrow> (real ndarray, 'w) AcousticFeature
     \<Rightarrow> (real ndarray, bool ndarray) AcousticFeature \<Rightarrow> bool" where
  "moments_fit mean var data \<longleftrightarrow>
     broadcasts_to (f0 mean) (f0 data) \<and> broadcasts_to (f0 var) (f0 data)
     \<and> broadcasts_to (spectrogram mean) (spectrogram data)
     \<and> broadcasts_to (spectrogram var) (spectrogram data)
     \<and> broadcasts_to (aperiodicity mean) (aperiodicity data)
     \<and> broadcasts_to (aperiodicity var) (aperiodicity data)
     \<and> broadcasts_to (mfcc mean) (mfcc data) \<and> broadcasts_to (mfcc var) (mfcc data)
     \<and> positive (f0 var) \<and> positive (spectrogram var) \<and> positive (aperiodicity var)
     \<and> positive (mfcc var)"

text \<open>
  A feature of three frames, the middle one unvoiced, with moments for it: the mean and
  the variance of each field are one row, broadcast over the frames.
\<close>

definition example_feature :: "(real ndarray, bool ndarray) AcousticFeature" where
  "example_feature =
     \<lparr>f0 = \<lparr>shape1 = 1, rows = [[100], [0], [100]]\<rparr>,
      spectrogram = \<lparr>shape1 = 2, rows = [[1, 2], [3, 4], [5, 6]]\<rparr>,
      aperiodicity = \<lparr>shape1 = 1, rows = [[1], [1], [1]]\<rparr>,
      mfcc = \<lparr>shape1 = 1, rows = [[2], [4], [6]]\<rparr>,
      voiced = \<lparr>shape1 = 1, rows = [[True], [False], [True]]\<rparr>\<rparr>"

definition example_mean :: "(real ndarray, unit) AcousticFeature" where
  "example_mean =
     \<lparr>f0 = \<lparr>shape1 = 1, rows = [[50]]\<rparr>,
      spectrogram = \<lparr>shape1 = 2, rows = [[1, 2]]\<rparr>,
      aperiodicity = \<lparr>shape1 = 1, rows = [[0]]\<rparr>,
      mfcc = \<lparr>shape1 = 1, rows = [[2]]\<rparr>,
      voiced = ()\<rparr>"

definition example_var :: "(real ndarray, unit) AcousticFeature" where
  "example_var =
     \<lparr>f0 = \<lparr>shape1 = 1, rows = [[25]]\<rparr>,
      spectrogram = \<lparr>shape1 = 2, rows = [[1, 4]]\<rparr>,
      aperiodicity = \<lparr>shape1 = 1, rows = [[1]]\<rparr>,
      mfcc = \<lparr>shape1 = 1, rows = [[4]]\<rparr>,
      voiced = ()\<rparr>"

section \<open>Normalization, with the arrays in a store\<close>

text \<open>
  \<^verbatim>\<open>f0[~data.voiced] = 0\<close> writes into an array in place. To see which array, the
  transform is given a second time with the arrays in a store: a feature holds the
  references of its arrays, the store gives the array a reference holds (numeric arrays
  and boolean arrays apart) and the first reference not yet in use. Every numpy
  expression that the code binds or passes on creates its result at a new reference; the
  assignment through the mask overwrites the array at the reference of \<open>f0\<close>, the one
  just created; the voiced field of the result is the reference of the input's. The
  values are computed by the same functions as before.
\<close>

record heap =
  floats :: "ref \<Rightarrow> real ndarray"
  bools :: "ref \<Rightarrow> bool ndarray"
  next_ref :: ref

definition new_floats :: "heap \<Rightarrow> real ndarray \<Rightarrow> heap \<times> ref" where
  "new_floats h a = (h\<lparr>floats := (floats h)(next_ref h := a), next_ref := Suc (next_ref h)\<rparr>, next_ref h)"

definition normalize_in_store :: "heap \<Rightarrow> ref \<Rightarrow> ref \<Rightarrow> ref \<Rightarrow> error + (heap \<times> ref)" where
  "normalize_in_store h x mean var =
     (case normalize (floats h x) (floats h mean) (floats h var) of
        Inl e \<Rightarrow> Inl e
      | Inr a \<Rightarrow> Inr (new_floats h a))"

definition AcousticFeatureNormalizeProcess_in_store ::
  "(ref, ref) AcousticFeature \<Rightarrow> (ref, ref) AcousticFeature \<Rightarrow> heap
     \<Rightarrow> (ref, ref) AcousticFeature \<Rightarrow> bool \<Rightarrow> error + (heap \<times> (ref, ref) AcousticFeature)" where
  "AcousticFeatureNormalizeProcess_in_store mean var h data test =
     (case normalize_in_store h (f0 data) (f0 mean) (f0 var) of
        Inl e \<Rightarrow> Inl e
      | Inr (h1, f0_ref) \<Rightarrow>
     (case setitem_mask (floats h1 f0_ref) (numpy_invert (bools h1 (voiced data))) 0 of
        Inl e \<Rightarrow> Inl e
      | Inr f0_set \<Rightarrow>
     (case normalize_in_store (h1\<lparr>floats := (floats h1)(f0_ref := f0_set)\<rparr>)
             (spectrogram data) (spectrogram mean) (spectrogram var) of
        Inl e \<Rightarrow> Inl e
      | Inr (h2, sp_ref) \<Rightarrow>
     (case normalize_in_store h2 (aperiodicity data) (aperiodicity mean) (aperiodicity var) of
        Inl e \<Rightarrow> Inl e
      | Inr (h3, ap_ref) \<Rightarrow>
     (case normalize_in_store h3 (mfcc data) (mfcc mean) (mfcc var) of
        Inl e \<Rightarrow> Inl e
      | Inr (h4, mc_ref) \<Rightarrow>
          Inr (h4, \<lparr>f0 = f0_ref, spectrogram = sp_ref, aperiodicity = ap_ref, mfcc = mc_ref,
                    voiced = voiced data\<rparr>))))))"

text \<open>The feature that the references of a feature stand for in a store.\<close>

definition feature_in :: "heap \<Rightarrow> (ref, ref) AcousticFeature \<Rightarrow> (real ndarray, bool ndarray) AcousticFeature" where
  "feature_in h refs =
     \<lparr>f0 = floats h (f0 refs), spectrogram = floats h (spectrogram refs),
      aperiodicity = floats h (aperiodicity refs), mfcc = floats h (mfcc refs),
      voiced = bools h (voiced refs)\<rparr>"

definition allocated :: "heap \<Rightarrow> (ref, ref) AcousticFeature \<Rightarrow> bool" where
  "allocated h refs \<longleftrightarrow>
     f0 refs < next_ref h \<and> spectrogram refs < next_ref h \<and> aperiodicity refs < next_ref h
     \<and> mfcc refs < next_ref h \<and> voiced refs < next_ref h"



section \<open>Facts about slices\<close>

lemma slice_index_nonneg: "0 \<le> i \<Longrightarrow> slice_index i n = min (nat i) n"
  by (simp add: slice_index_def)

lemma py_slice_nonneg:
  "0 \<le> st \<Longrightarrow> 0 \<le> en \<Longrightarrow>
   py_slice st en xs = take (min (nat en) (length xs) - min (nat st) (length xs)) (drop (min (nat st) (length xs)) xs)"
  by (simp add: py_slice_def slice_index_nonneg Let_def)

lemma py_slice_from_0: "0 \<le> en \<Longrightarrow> py_slice 0 en xs = take (nat en) xs"
  by (simp add: py_slice_nonneg min_def)

lemma py_slice_window:
  "0 \<le> st \<Longrightarrow> 0 \<le> c \<Longrightarrow> nat st + nat c \<le> length xs \<Longrightarrow>
   py_slice st (st + c) xs = take (nat c) (drop (nat st) xs)"
  by (simp add: py_slice_nonneg nat_add_distrib min_def)

section \<open>First crop\<close>

text \<open>
  C10. On a well-formed tensor, with a crop size that is not negative and a time axis
  that the tensor has, FirstCropProcess always returns: the result has time length
  \<open>min L crop_size\<close>, its other axis is unchanged, every element is the element of the
  input at the same position (the slice starts at 0), and when \<open>L < crop_size\<close> the
  result is the input itself.
\<close>

theorem FirstCropProcess_min_length:
  assumes "valid_ndarray data" and "0 \<le> crop_size"
    and "shape_at data time_axis = Inr L"
  shows "\<exists>out. FirstCropProcess crop_size time_axis data test = Inr out
           \<and> valid_ndarray out
           \<and> shape_at out time_axis = Inr (min L (nat crop_size))
           \<and> (time_axis = 1 \<or> time_axis = -1 \<longrightarrow> shape0 out = shape0 data)
           \<and> (time_axis = 0 \<or> time_axis = -2 \<longrightarrow> shape1 out = shape1 data)
           \<and> (\<forall>i j. i < shape0 out \<and> j < shape1 out \<longrightarrow> item out i j = item data i j)
           \<and> (L < nat crop_size \<longrightarrow> out = data)"
proof -
  consider (a0) "time_axis = 0 \<or> time_axis = -2" | (a1) "time_axis = 1 \<or> time_axis = -1"
    using assms(3) by (auto simp: shape_at_def split: if_splits)
  then show ?thesis
  proof cases
    case a0
    then have L: "L = length (rows data)"
      using assms(3) by (auto simp: shape_at_def shape0_def)
    let ?out = "data\<lparr>rows := take (nat crop_size) (rows data)\<rparr>"
    have run: "FirstCropProcess crop_size time_axis data test = Inr ?out"
      using a0 assms(2) by (auto simp: FirstCropProcess_def numpy_split_1_def py_slice_from_0)
    have v: "valid_ndarray ?out"
      using assms(1) by (auto simp: valid_ndarray_def dest: in_set_takeD)
    have s: "shape_at ?out time_axis = Inr (min L (nat crop_size))"
      using a0 L by (auto simp: shape_at_def shape0_def min.commute)
    have o: "(time_axis = 1 \<or> time_axis = -1 \<longrightarrow> shape0 ?out = shape0 data)
           \<and> (time_axis = 0 \<or> time_axis = -2 \<longrightarrow> shape1 ?out = shape1 data)"
      using a0 by auto
    have e: "\<forall>i j. i < shape0 ?out \<and> j < shape1 ?out \<longrightarrow> item ?out i j = item data i j"
      by (simp add: item_def shape0_def)
    have w: "L < nat crop_size \<longrightarrow> ?out = data"
      using L by simp
    show ?thesis using run v s o e w by blast
  next
    case a1
    then have L: "L = shape1 data"
      using assms(3) by (auto simp: shape_at_def)
    let ?out = "\<lparr>shape1 = min (nat crop_size) (shape1 data),
                 rows = map (take (nat crop_size)) (rows data)\<rparr>"
    have sl: "py_slice 0 crop_size = (take (nat crop_size) :: 'a list \<Rightarrow> 'a list)"
      using assms(2) by (auto simp: py_slice_from_0)
    have run: "FirstCropProcess crop_size time_axis data test = Inr ?out"
      using a1 assms(2) by (auto simp: FirstCropProcess_def numpy_split_1_def sl slice_index_nonneg)
    have v: "valid_ndarray ?out"
      using assms(1) by (auto simp: valid_ndarray_def min.commute)
    have s: "shape_at ?out time_axis = Inr (min L (nat crop_size))"
      using a1 L by (auto simp: shape_at_def min.commute)
    have o: "(time_axis = 1 \<or> time_axis = -1 \<longrightarrow> shape0 ?out = shape0 data)
           \<and> (time_axis = 0 \<or> time_axis = -2 \<longrightarrow> shape1 ?out = shape1 data)"
      using a1 by (auto simp: shape0_def)
    have e: "\<forall>i j. i < shape0 ?out \<and> j < shape1 ?out \<longrightarrow> item ?out i j = item data i j"
      by (simp add: item_def shape0_def)
    have w: "L < nat crop_size \<longrightarrow> ?out = data"
    proof
      assume "L < nat crop_size"
      then have "map (take (nat crop_size)) (rows data) = rows data"
        using assms(1) L by (auto simp: valid_ndarray_def intro: map_idI)
      then show "?out = data" using L \<open>L < nat crop_size\<close> by simp
    qed
    show ?thesis using run v s o e w by blast
  qed
qed

theorem FirstCropProcess_min_length_witness:
  "valid_ndarray \<lparr>shape1 = 3, rows = [[1, 2, 3], [4, 5, 6::int]]\<rparr> \<and> (0::int) \<le> 2
   \<and> shape_at \<lparr>shape1 = 3, rows = [[1, 2, 3], [4, 5, 6::int]]\<rparr> 1 = Inr 3
   \<and> FirstCropProcess 2 1 \<lparr>shape1 = 3, rows = [[1, 2, 3], [4, 5, 6::int]]\<rparr> False
       = Inr \<lparr>shape1 = 2, rows = [[1, 2], [4, 5]]\<rparr>
   \<and> (\<exists>out. FirstCropProcess 2 1 \<lparr>shape1 = 3, rows = [[1, 2, 3], [4, 5, 6::int]]\<rparr> False = Inr out
        \<and> shape_at out 1 = Inr (min 3 (nat 2)))"
proof -
  let ?d = "\<lparr>shape1 = 3, rows = [[1, 2, 3], [4, 5, 6::int]]\<rparr>"
  have h1: "valid_ndarray ?d" by (simp add: valid_ndarray_def)
  have h2: "(0::int) \<le> 2" by simp
  have h3: "shape_at ?d 1 = Inr 3" by (simp add: shape_at_def)
  have r: "FirstCropProcess 2 1 ?d False = Inr \<lparr>shape1 = 2, rows = [[1, 2], [4, 5]]\<rparr>"
    by (simp add: FirstCropProcess_def numpy_split_1_def py_slice_def slice_index_def)
  from FirstCropProcess_min_length [OF h1 h2 h3, of False]
  have "\<exists>out. FirstCropProcess 2 1 ?d False = Inr out \<and> shape_at out 1 = Inr (min 3 (nat 2))"
    by blast
  with h1 h3 r show ?thesis by simp
qed

lemma nth_py_slice_window:
  assumes "0 \<le> st" "0 \<le> c" "nat st + nat c \<le> length xs" "j < nat c"
  shows "py_slice st (st + c) xs ! j = xs ! (nat st + j)"
  using assms by (simp add: py_slice_window)

lemma length_py_slice_window:
  assumes "0 \<le> st" "0 \<le> c" "nat st + nat c \<le> length xs"
  shows "length (py_slice st (st + c) xs) = nat c"
  using assms by (simp add: py_slice_window)

lemma slice_index_window:
  assumes "0 \<le> st" "0 \<le> c" "nat st + nat c \<le> n"
  shows "slice_index (st + c) n - slice_index st n = nat c"
  using assms by (simp add: slice_index_nonneg nat_add_distrib)

section \<open>Random crop\<close>

text \<open>
  C5. Take a well-formed tensor of time length \<open>L\<close>, a crop size that is not negative
  and a generator whose draw for this seed lies in \<open>[0, L - crop_size + 1)\<close>, as numpy's
  \<^verbatim>\<open>randint\<close> guarantees. When \<open>crop_size \<le> L\<close>, RandomCropProcess (not in
  test mode) returns the contiguous window of length exactly \<open>crop_size\<close> that starts at
  the drawn offset: the window lies inside the tensor and the other axis is untouched.
  The offset, and so the whole result, is a function of the tensor and the seed alone, so
  a second call with the same tensor and seed returns the same slice. When
  \<open>L < crop_size\<close> the call fails with the assertion error.
\<close>

theorem RandomCropProcess_length:
  assumes v: "valid_ndarray d" and c: "0 \<le> crop_size"
    and L: "shape_at d time_axis = Inr L"
    and r: "crop_size \<le> int L \<longrightarrow>
              0 \<le> rng s (int L - crop_size + 1) \<and> rng s (int L - crop_size + 1) < int L - crop_size + 1"
  shows "(crop_size \<le> int L \<longrightarrow>
           (\<exists>out start. RandomCropProcess crop_size time_axis rng \<lparr>datas_data = d, datas_seed = s\<rparr> False = Inr out
              \<and> start = nat (rng s (int L - crop_size + 1)) \<and> start + nat crop_size \<le> L
              \<and> valid_ndarray out
              \<and> shape_at out time_axis = Inr (nat crop_size)
              \<and> (time_axis = 1 \<or> time_axis = -1 \<longrightarrow> shape0 out = shape0 d
                    \<and> (\<forall>i j. i < shape0 d \<and> j < nat crop_size \<longrightarrow> item out i j = item d i (start + j)))
              \<and> (time_axis = 0 \<or> time_axis = -2 \<longrightarrow> shape1 out = shape1 d
                    \<and> (\<forall>i j. i < nat crop_size \<and> j < shape1 d \<longrightarrow> item out i j = item d (start + i) j))))
       \<and> (int L < crop_size \<longrightarrow>
            RandomCropProcess crop_size time_axis rng \<lparr>datas_data = d, datas_seed = s\<rparr> False = Inl AssertionError)"
proof (intro conjI impI)
  assume "int L < crop_size"
  then show "RandomCropProcess crop_size time_axis rng \<lparr>datas_data = d, datas_seed = s\<rparr> False = Inl AssertionError"
    using L by (simp add: RandomCropProcess_def)
next
  assume le: "crop_size \<le> int L"
  define st where "st = rng s (int L - crop_size + 1)"
  have st0: "0 \<le> st" and st1: "st < int L - crop_size + 1"
    using r le by (simp_all add: st_def)
  have fit: "nat st + nat crop_size \<le> L" using st0 st1 c by linarith
  have run: "RandomCropProcess crop_size time_axis rng \<lparr>datas_data = d, datas_seed = s\<rparr> False
               = numpy_split_1 d st (st + crop_size) time_axis"
    using L le st1 by (simp add: RandomCropProcess_def RandomState_randint_def st_def)
  consider (a0) "time_axis = 0 \<or> time_axis = -2" | (a1) "time_axis = 1 \<or> time_axis = -1"
    using L by (auto simp: shape_at_def split: if_splits)
  then show "\<exists>out start. RandomCropProcess crop_size time_axis rng \<lparr>datas_data = d, datas_seed = s\<rparr> False = Inr out
              \<and> start = nat (rng s (int L - crop_size + 1)) \<and> start + nat crop_size \<le> L
              \<and> valid_ndarray out
              \<and> shape_at out time_axis = Inr (nat crop_size)
              \<and> (time_axis = 1 \<or> time_axis = -1 \<longrightarrow> shape0 out = shape0 d
                    \<and> (\<forall>i j. i < shape0 d \<and> j < nat crop_size \<longrightarrow> item out i j = item d i (start + j)))
              \<and> (time_axis = 0 \<or> time_axis = -2 \<longrightarrow> shape1 out = shape1 d
                    \<and> (\<forall>i j. i < nat crop_size \<and> j < shape1 d \<longrightarrow> item out i j = item d (start + i) j))"
  proof cases
    case a0
    then have Ld: "L = length (rows d)" using L by (auto simp: shape_at_def shape0_def)
    let ?out = "d\<lparr>rows := py_slice st (st + crop_size) (rows d)\<rparr>"
    have sl: "py_slice st (st + crop_size) (rows d) = take (nat crop_size) (drop (nat st) (rows d))"
      using st0 c fit Ld by (simp add: py_slice_window)
    have 1: "RandomCropProcess crop_size time_axis rng \<lparr>datas_data = d, datas_seed = s\<rparr> False = Inr ?out"
      using run a0 by (auto simp: numpy_split_1_def)
    have 2: "valid_ndarray ?out"
      using v by (auto simp: valid_ndarray_def sl dest!: in_set_takeD in_set_dropD)
    have 3: "shape_at ?out time_axis = Inr (nat crop_size)"
      using a0 fit Ld by (auto simp: shape_at_def shape0_def sl)
    have 4: "shape1 ?out = shape1 d" by simp
    have 5: "\<forall>i j. i < nat crop_size \<and> j < shape1 d \<longrightarrow> item ?out i j = item d (nat st + i) j"
      using fit Ld by (simp add: item_def sl)
    show ?thesis using 1 2 3 4 5 a0 fit by (auto simp: st_def)
  next
    case a1
    then have Ld: "L = shape1 d" using L by (auto simp: shape_at_def)
    let ?out = "\<lparr>shape1 = slice_index (st + crop_size) (shape1 d) - slice_index st (shape1 d),
                 rows = map (py_slice st (st + crop_size)) (rows d)\<rparr>"
    have 1: "RandomCropProcess crop_size time_axis rng \<lparr>datas_data = d, datas_seed = s\<rparr> False = Inr ?out"
      using run a1 by (auto simp: numpy_split_1_def)
    have len: "\<And>r. r \<in> set (rows d) \<Longrightarrow> nat st + nat crop_size \<le> length r"
      using v fit Ld by (simp add: valid_ndarray_def)
    have s1: "shape1 ?out = nat crop_size"
      using slice_index_window [OF st0 c] fit Ld by simp
    have 2: "valid_ndarray ?out"
      unfolding valid_ndarray_def using s1 length_py_slice_window [OF st0 c len] by auto
    have 3: "shape_at ?out time_axis = Inr (nat crop_size)"
      using a1 s1 by (auto simp: shape_at_def)
    have 4: "shape0 ?out = shape0 d" by (simp add: shape0_def)
    have 5: "\<forall>i j. i < shape0 d \<and> j < nat crop_size \<longrightarrow> item ?out i j = item d i (nat st + j)"
      using nth_py_slice_window [OF st0 c len] by (simp add: item_def shape0_def)
    show ?thesis using 1 2 3 4 5 a1 fit by (auto simp: st_def)
  qed
qed

theorem RandomCropProcess_length_witness:
  "valid_ndarray \<lparr>shape1 = 4, rows = [[1, 2, 3, 4::int]]\<rparr> \<and> (0::int) \<le> 2
   \<and> shape_at \<lparr>shape1 = 4, rows = [[1, 2, 3, 4::int]]\<rparr> 1 = Inr 4
   \<and> (0::int) \<le> 7 mod (int 4 - 2 + 1) \<and> (7::int) mod (int 4 - 2 + 1) < int 4 - 2 + 1
   \<and> RandomCropProcess 2 1 (\<lambda>s high. s mod high)
        \<lparr>datas_data = \<lparr>shape1 = 4, rows = [[1, 2, 3, 4::int]]\<rparr>, datas_seed = 7\<rparr> False
       = Inr \<lparr>shape1 = 2, rows = [[2, 3]]\<rparr>
   \<and> (\<exists>out. RandomCropProcess 2 1 (\<lambda>s high. s mod high)
        \<lparr>datas_data = \<lparr>shape1 = 4, rows = [[1, 2, 3, 4::int]]\<rparr>, datas_seed = 7\<rparr> False = Inr out
        \<and> shape_at out 1 = Inr (nat 2))
   \<and> RandomCropProcess 5 1 (\<lambda>s high. s mod high)
        \<lparr>datas_data = \<lparr>shape1 = 4, rows = [[1, 2, 3, 4::int]]\<rparr>, datas_seed = 7\<rparr> False
       = Inl AssertionError"
proof -
  let ?d = "\<lparr>shape1 = 4, rows = [[1, 2, 3, 4::int]]\<rparr>"
  let ?rng = "\<lambda>(s::int) (high::int). s mod high"
  have h1: "valid_ndarray ?d" by (simp add: valid_ndarray_def)
  have h3: "shape_at ?d 1 = Inr 4" by (simp add: shape_at_def)
  have h4: "(2::int) \<le> int 4 \<longrightarrow> 0 \<le> ?rng 7 (int 4 - 2 + 1) \<and> ?rng 7 (int 4 - 2 + 1) < int 4 - 2 + 1"
    by simp
  have h5: "(5::int) \<le> int 4 \<longrightarrow> 0 \<le> ?rng 7 (int 4 - 5 + 1) \<and> ?rng 7 (int 4 - 5 + 1) < int 4 - 5 + 1"
    by simp
  have r: "RandomCropProcess 2 1 ?rng \<lparr>datas_data = ?d, datas_seed = 7\<rparr> False
             = Inr \<lparr>shape1 = 2, rows = [[2, 3]]\<rparr>"
    by (simp add: RandomCropProcess_def RandomState_randint_def shape_at_def numpy_split_1_def
        py_slice_def slice_index_def)
  have a: "\<exists>out. RandomCropProcess 2 1 ?rng \<lparr>datas_data = ?d, datas_seed = 7\<rparr> False = Inr out
        \<and> shape_at out 1 = Inr (nat 2)"
    using RandomCropProcess_length [where d = ?d and crop_size = 2 and time_axis = 1 and L = 4
        and rng = ?rng and s = 7] h1 h3 h4
    by auto
  have b: "RandomCropProcess 5 1 ?rng \<lparr>datas_data = ?d, datas_seed = 7\<rparr> False = Inl AssertionError"
    using RandomCropProcess_length [where d = ?d and crop_size = 5 and time_axis = 1 and L = 4
        and rng = ?rng and s = 7] h1 h3 h5
    by simp
  show ?thesis using h1 h3 r a b by simp
qed

section \<open>Test mode\<close>

text \<open>
  C4. Called with \<open>test = True\<close>, each of the three stochastic transforms (random
  padding, random cropping, additive noise) fails with the assertion error, whatever its
  parameters and its input are: the assertion is the first statement of each
  \<^verbatim>\<open>__call__\<close>, and the only checks before it are the constructors' own
  assertions.
\<close>

theorem stochastic_transforms_refuse_test_mode:
  "RandomPaddingProcess min_size time_axis rng datas True = Inl AssertionError
   \<and> RandomCropProcess crop_size time_axis' rng' datas' True = Inl AssertionError
   \<and> AddNoiseProcess p_global p_local randn_g randn_l data True = Inl AssertionError"
  by (simp add: RandomPaddingProcess_def RandomCropProcess_def AddNoiseProcess_def)

section \<open>Random padding\<close>

text \<open>
  What the code does on a tensor shorter than \<open>min_size\<close>: the leading pad \<open>pre\<close>
  is drawn from \<open>[0, min_size - L]\<close>, but the trailing pad is \<open>min_size - pre\<close>, not
  \<open>min_size - L - pre\<close>, so the result has time length \<open>L + min_size\<close>.
\<close>

lemma RandomPaddingProcess_pads_by_min_size:
  assumes "int (shape1 d) < min_size"
    and "0 \<le> rng s (min_size - int (shape1 d) + 1)"
    and "rng s (min_size - int (shape1 d) + 1) < min_size - int (shape1 d) + 1"
  shows "\<exists>out. RandomPaddingProcess min_size 1 rng \<lparr>datas_data = d, datas_seed = s\<rparr> False = Inr out
           \<and> shape1 out = shape1 d + nat min_size"
  using assms
  by (auto simp: RandomPaddingProcess_def RandomState_randint_def numpy_pad_def Let_def)

text \<open>
  C2. The claim asks for a result of time length exactly \<open>min_size\<close>. At the tensor
  \<open>[[5]]\<close> (time length 1) with \<open>min_size = 3\<close> and a draw of 1 for the leading pad,
  the code returns \<open>[[0, 5, 0, 0]]\<close>, of time length 4: the trailing pad is 2 where the
  remainder \<open>min_size - length - leading\<close> is 1.
\<close>

theorem RandomPaddingProcess_overpads:
  "RandomPaddingProcess 3 1 (\<lambda>s high. s mod high)
     \<lparr>datas_data = \<lparr>shape1 = 1, rows = [[5::int]]\<rparr>, datas_seed = (4::int)\<rparr> False
   = Inr \<lparr>shape1 = 4, rows = [[0, 5, 0, 0]]\<rparr>"
  by (simp add: RandomPaddingProcess_def RandomState_randint_def numpy_pad_def Let_def
      numeral_2_eq_2)

section \<open>Shape alignment pads to the longest\<close>

lemma numpy_pad_right:
  assumes "shape1 x \<le> m"
  shows "numpy_pad x 0 (int m - int (shape1 x))
           = Inr \<lparr>shape1 = m, rows = map (\<lambda>r. r @ replicate (m - shape1 x) 0) (rows x)\<rparr>"
  using assms by (simp add: numpy_pad_def nat_diff_distrib')

lemma valid_padded_right:
  assumes "valid_ndarray x" and "shape1 x \<le> m"
  shows "valid_ndarray \<lparr>shape1 = m, rows = map (\<lambda>r. r @ replicate (m - shape1 x) 0) (rows x)\<rparr>"
  using assms by (auto simp: valid_ndarray_def)

text \<open>
  C7. When the dictionary holds three well-formed tensors under \<open>input\<close>, \<open>target\<close>
  and \<open>mask\<close>, of time lengths \<open>a\<close>, \<open>b\<close> and \<open>c\<close>, ShapeAlignProcess returns
  (in either mode), and afterwards the dictionary holds under these keys three well-formed
  tensors of time length \<open>m = max a b c\<close>: every row of each is the original row followed
  by zeros up to length \<open>m\<close>.
\<close>

theorem ShapeAlignProcess_common_length:
  assumes i: "store data ''input'' = Some x1"
    and t: "store data ''target'' = Some x2"
    and k: "store data ''mask'' = Some x3"
    and v: "valid_ndarray x1" "valid_ndarray x2" "valid_ndarray x3"
    and m: "m = max (max (shape1 x1) (shape1 x2)) (shape1 x3)"
  shows "\<exists>store' y1 y2 y3.
           ShapeAlignProcess store data test = Inr (store', data)
           \<and> store' data ''input'' = Some y1 \<and> store' data ''target'' = Some y2
           \<and> store' data ''mask'' = Some y3
           \<and> shape1 y1 = m \<and> shape1 y2 = m \<and> shape1 y3 = m
           \<and> valid_ndarray y1 \<and> valid_ndarray y2 \<and> valid_ndarray y3
           \<and> rows y1 = map (\<lambda>r. r @ replicate (m - shape1 x1) 0) (rows x1)
           \<and> rows y2 = map (\<lambda>r. r @ replicate (m - shape1 x2) 0) (rows x2)
           \<and> rows y3 = map (\<lambda>r. r @ replicate (m - shape1 x3) 0) (rows x3)"
proof -
  let ?y1 = "\<lparr>shape1 = m, rows = map (\<lambda>r. r @ replicate (m - shape1 x1) 0) (rows x1)\<rparr>"
  let ?y2 = "\<lparr>shape1 = m, rows = map (\<lambda>r. r @ replicate (m - shape1 x2) 0) (rows x2)\<rparr>"
  let ?y3 = "\<lparr>shape1 = m, rows = map (\<lambda>r. r @ replicate (m - shape1 x3) 0) (rows x3)\<rparr>"
  let ?store' = "store(data := (store data)(''input'' \<mapsto> ?y1, ''target'' \<mapsto> ?y2, ''mask'' \<mapsto> ?y3))"
  have le: "shape1 x1 \<le> m" "shape1 x2 \<le> m" "shape1 x3 \<le> m"
    using m by simp_all
  have run: "ShapeAlignProcess store data test = Inr (?store', data)"
    using i t k numpy_pad_right [OF le(1)] numpy_pad_right [OF le(2)] numpy_pad_right [OF le(3)]
    by (simp add: ShapeAlignProcess_def Let_def m [symmetric])
  have vs: "valid_ndarray ?y1" "valid_ndarray ?y2" "valid_ndarray ?y3"
    using v le by (simp_all add: valid_padded_right)
  have look: "?store' data ''input'' = Some ?y1" "?store' data ''target'' = Some ?y2"
    "?store' data ''mask'' = Some ?y3"
    by simp_all
  show ?thesis
    using run vs look by (intro exI [of _ ?store'] exI [of _ ?y1] exI [of _ ?y2] exI [of _ ?y3]) simp
qed

theorem ShapeAlignProcess_common_length_witness:
  "example_store 0 ''input'' = Some \<lparr>shape1 = 1, rows = [[7]]\<rparr>
   \<and> example_store 0 ''target'' = Some \<lparr>shape1 = 2, rows = [[8, 9]]\<rparr>
   \<and> example_store 0 ''mask'' = Some \<lparr>shape1 = 2, rows = [[1, 1]]\<rparr>
   \<and> valid_ndarray \<lparr>shape1 = 1, rows = [[7::int]]\<rparr>
   \<and> valid_ndarray \<lparr>shape1 = 2, rows = [[8, 9::int]]\<rparr>
   \<and> valid_ndarray \<lparr>shape1 = 2, rows = [[1, 1::int]]\<rparr>
   \<and> (\<exists>store'. ShapeAlignProcess example_store 0 False = Inr (store', 0)
         \<and> store' 0 ''input'' = Some \<lparr>shape1 = 2, rows = [[7, 0]]\<rparr>
         \<and> store' 0 ''target'' = Some \<lparr>shape1 = 2, rows = [[8, 9]]\<rparr>
         \<and> store' 0 ''mask'' = Some \<lparr>shape1 = 2, rows = [[1, 1]]\<rparr>)"
proof -
  let ?x1 = "\<lparr>shape1 = 1, rows = [[7::int]]\<rparr>"
  let ?x2 = "\<lparr>shape1 = 2, rows = [[8, 9::int]]\<rparr>"
  let ?x3 = "\<lparr>shape1 = 2, rows = [[1, 1::int]]\<rparr>"
  have h: "example_store 0 ''input'' = Some ?x1" "example_store 0 ''target'' = Some ?x2"
    "example_store 0 ''mask'' = Some ?x3"
    by (simp_all add: example_store_def)
  have v: "valid_ndarray ?x1" "valid_ndarray ?x2" "valid_ndarray ?x3"
    by (simp_all add: valid_ndarray_def)
  have m: "(2::nat) = max (max (shape1 ?x1) (shape1 ?x2)) (shape1 ?x3)"
    by simp
  obtain store' y1 y2 y3 where
    r: "ShapeAlignProcess example_store 0 False = Inr (store', 0)"
      "store' 0 ''input'' = Some y1" "store' 0 ''target'' = Some y2" "store' 0 ''mask'' = Some y3"
      "shape1 y1 = 2" "shape1 y2 = 2" "shape1 y3 = 2"
      "rows y1 = map (\<lambda>r. r @ replicate (2 - shape1 ?x1) 0) (rows ?x1)"
      "rows y2 = map (\<lambda>r. r @ replicate (2 - shape1 ?x2) 0) (rows ?x2)"
      "rows y3 = map (\<lambda>r. r @ replicate (2 - shape1 ?x3) 0) (rows ?x3)"
    using ShapeAlignProcess_common_length [where store = example_store and data = 0
        and ?x1.0 = ?x1 and ?x2.0 = ?x2 and ?x3.0 = ?x3 and m = 2 and test = False] h v m
    by blast
  have "y1 = \<lparr>shape1 = 2, rows = [[7, 0]]\<rparr>" "y2 = ?x2" "y3 = ?x3"
    using r(5-10) by (simp_all add: numeral_2_eq_2)
  with r(1-4) h v show ?thesis by auto
qed

section \<open>Selecting fields\<close>

lemma has_field_cases:
  "has_field t \<longleftrightarrow> t = ''f0'' \<or> t = ''spectrogram'' \<or> t = ''aperiodicity'' \<or> t = ''mfcc'' \<or> t = ''voiced''"
  by (simp add: has_field_def)

lemma getattr_cases:
  "getattr attrs feature t =
     (if t = ''voiced'' then Inr (Flags (voiced feature))
      else if t = ''f0'' then Inr (Numeric (f0 feature))
      else if t = ''spectrogram'' then Inr (Numeric (spectrogram feature))
      else if t = ''aperiodicity'' then Inr (Numeric (aperiodicity feature))
      else if t = ''mfcc'' then Inr (Numeric (mfcc feature))
      else if attrs t then Inr Other else Inl AttributeError)"
  by (simp add: getattr_def)

lemma getattr_error: "getattr attrs feature t = Inl e \<longleftrightarrow> e = AttributeError \<and> \<not> (has_field t \<or> attrs t)"
  by (auto simp: getattr_def has_field_def)

text \<open>
  The dictionary of the targets: it exists when every target is an attribute, and then
  it holds, for each target, the attribute of that name, on top of what it held before.
\<close>

lemma targets_dict_Inr:
  assumes "\<forall>t \<in> set ts. has_field t \<or> attrs t"
  shows "\<exists>d'. targets_dict attrs feature ts d = Inr d'
           \<and> (\<forall>k. k \<in> set ts \<longrightarrow> getattr attrs feature k = Inr (defaultdict_getitem d' k) \<and> d' k \<noteq> None)
           \<and> (\<forall>k. k \<notin> set ts \<longrightarrow> d' k = d k)"
  using assms
proof (induction ts arbitrary: d)
  case Nil
  then show ?case by simp
next
  case (Cons t ts)
  have here: "has_field t \<or> attrs t" and rest: "\<forall>t \<in> set ts. has_field t \<or> attrs t"
    using Cons.prems by simp_all
  obtain x where x: "getattr attrs feature t = Inr x"
  proof (cases "getattr attrs feature t")
    case (Inl e)
    then have "\<not> (has_field t \<or> attrs t)" using getattr_error [of attrs feature t e] by blast
    with here show ?thesis by simp
  next
    case (Inr x)
    then show ?thesis by (rule that)
  qed
  from Cons.IH [OF rest, of "d(t \<mapsto> x)"]
  obtain d' where d': "targets_dict attrs feature ts (d(t \<mapsto> x)) = Inr d'"
    "\<forall>k. k \<in> set ts \<longrightarrow> getattr attrs feature k = Inr (defaultdict_getitem d' k) \<and> d' k \<noteq> None"
    "\<forall>k. k \<notin> set ts \<longrightarrow> d' k = (d(t \<mapsto> x)) k"
    by blast
  have "targets_dict attrs feature (t # ts) d = Inr d'"
    using x d'(1) by simp
  moreover have "\<forall>k. k \<in> set (t # ts) \<longrightarrow>
      getattr attrs feature k = Inr (defaultdict_getitem d' k) \<and> d' k \<noteq> None"
  proof (intro allI impI)
    fix k assume k: "k \<in> set (t # ts)"
    show "getattr attrs feature k = Inr (defaultdict_getitem d' k) \<and> d' k \<noteq> None"
    proof (cases "k \<in> set ts")
      case True
      then show ?thesis using d'(2) by blast
    next
      case False
      then have "k = t" using k by simp
      moreover have "d' t = Some x" using d'(3) False \<open>k = t\<close> by simp
      ultimately show ?thesis using x by (simp add: defaultdict_getitem_def)
    qed
  qed
  moreover have "\<forall>k. k \<notin> set (t # ts) \<longrightarrow> d' k = d k"
    using d'(3) by auto
  ultimately show ?case by blast
qed

lemma targets_dict_Inl:
  assumes "\<not> (\<forall>t \<in> set ts. has_field t \<or> attrs t)"
  shows "targets_dict attrs feature ts d = Inl AttributeError"
  using assms
proof (induction ts arbitrary: d)
  case Nil
  then show ?case by simp
next
  case (Cons t ts)
  show ?case
  proof (cases "getattr attrs feature t")
    case (Inl e)
    then have "e = AttributeError" using getattr_error [of attrs feature t e] by blast
    with Inl show ?thesis by simp
  next
    case (Inr x)
    have "has_field t \<or> attrs t"
    proof (rule ccontr)
      assume "\<not> (has_field t \<or> attrs t)"
      then have "getattr attrs feature t = Inl AttributeError"
        using getattr_error [of attrs feature t AttributeError] by blast
      with Inr show False by simp
    qed
    with Cons.prems have "\<not> (\<forall>t \<in> set ts. has_field t \<or> attrs t)" by simp
    from Cons.IH [OF this] Inr show ?thesis by simp
  qed
qed

lemma defaultdict_getitem_targets:
  assumes "targets_dict attrs feature ts Map.empty = Inr d"
    and "\<forall>t \<in> set ts. has_field t \<or> attrs t"
  shows "defaultdict_getitem d k
           = (if k \<in> set ts then (case getattr attrs feature k of Inr x \<Rightarrow> x | Inl e \<Rightarrow> Not_a_number)
              else Not_a_number)"
proof -
  from targets_dict_Inr [OF assms(2), of feature Map.empty] assms(1)
  have in_ts: "\<forall>k. k \<in> set ts \<longrightarrow> getattr attrs feature k = Inr (defaultdict_getitem d k)"
    and out_ts: "\<forall>k. k \<notin> set ts \<longrightarrow> d k = None"
    by auto
  show ?thesis
  proof (cases "k \<in> set ts")
    case True
    then show ?thesis using in_ts by simp
  next
    case False
    then show ?thesis using out_ts by (simp add: defaultdict_getitem_def)
  qed
qed

text \<open>
  C8, as stated, fails: the result is not of the shape of the input. From the example
  feature of two frames, with \<open>mfcc\<close> and \<open>voiced\<close> selected, the result holds in \<open>f0\<close>
  the scalar \<^verbatim>\<open>numpy.nan\<close>, of shape \<open>()\<close>, where the input holds an array of shape
  \<open>(2, 1)\<close>.
\<close>

theorem DistillateUsingFeatureProcess_unselected_is_scalar:
  "DistillateUsingFeatureProcess example_attrs [''mfcc'', ''voiced''] example_loaded False
     = Inr \<lparr>f0 = Not_a_number, spectrogram = Not_a_number, aperiodicity = Not_a_number,
            mfcc = Numeric (mfcc example_loaded), voiced = Flags (voiced example_loaded)\<rparr>
   \<and> numpy_shape (f0 \<lparr>f0 = Not_a_number, spectrogram = Not_a_number, aperiodicity = Not_a_number,
            mfcc = Numeric (mfcc example_loaded), voiced = Flags (voiced example_loaded)\<rparr>) = []
   \<and> numpy_shape (Numeric (f0 example_loaded)) = [2, 1]"
  by (simp add: DistillateUsingFeatureProcess_def getattr_def defaultdict_getitem_def
      numpy_shape_def shape0_def example_loaded_def)

text \<open>
  C8, amended. For every AcousticFeature and every list of target names: when every name
  is an attribute of the feature, DistillateUsingFeatureProcess returns an AcousticFeature
  in which each selected field is the corresponding field of the input, as it is, and each
  field that is not selected is the scalar \<^verbatim>\<open>numpy.nan\<close> (so the result does not keep
  the shape of the input there); a target that is an attribute but no field changes
  nothing; when some name is no attribute, it raises the attribute error.
\<close>

theorem DistillateUsingFeatureProcess_selects:
  "DistillateUsingFeatureProcess attrs targets feature test =
     (if \<forall>t \<in> set targets. has_field t \<or> attrs t
      then Inr \<lparr>f0 = (if ''f0'' \<in> set targets then Numeric (f0 feature) else Not_a_number),
                spectrogram = (if ''spectrogram'' \<in> set targets then Numeric (spectrogram feature)
                               else Not_a_number),
                aperiodicity = (if ''aperiodicity'' \<in> set targets then Numeric (aperiodicity feature)
                                else Not_a_number),
                mfcc = (if ''mfcc'' \<in> set targets then Numeric (mfcc feature) else Not_a_number),
                voiced = (if ''voiced'' \<in> set targets then Flags (voiced feature) else Not_a_number)\<rparr>
      else Inl AttributeError)"
proof (cases "\<forall>t \<in> set targets. has_field t \<or> attrs t")
  case True
  then obtain d where d: "targets_dict attrs feature targets Map.empty = Inr d"
    using targets_dict_Inr [of targets attrs feature Map.empty] by blast
  note g = defaultdict_getitem_targets [OF d True]
  show ?thesis
    using True by (simp add: DistillateUsingFeatureProcess_def d g getattr_def)
next
  case False
  then show ?thesis
    by (simp add: DistillateUsingFeatureProcess_def targets_dict_Inl)
qed

theorem DistillateUsingFeatureProcess_selects_witness:
  "DistillateUsingFeatureProcess example_attrs [''mfcc'', ''astype'', ''voiced'', ''mfcc'']
       example_loaded False
     = Inr \<lparr>f0 = Not_a_number, spectrogram = Not_a_number, aperiodicity = Not_a_number,
            mfcc = Numeric (mfcc example_loaded), voiced = Flags (voiced example_loaded)\<rparr>
   \<and> DistillateUsingFeatureProcess example_attrs [''mfcc'', ''pitch''] example_loaded False
     = Inl AttributeError"
  using DistillateUsingFeatureProcess_selects
      [of example_attrs "[''mfcc'', ''astype'', ''voiced'', ''mfcc'']" example_loaded False]
    DistillateUsingFeatureProcess_selects [of example_attrs "[''mfcc'', ''pitch'']" example_loaded False]
  by (simp add: has_field_def example_attrs_def)

section \<open>Decoding an encoded feature\<close>

text \<open>
  With one target the round trip holds: the only segment is \<open>(0, width)\<close>, and decoding
  the encoded field gives the field back.
\<close>

lemma numpy_T_numpy_T:
  assumes "valid_ndarray x"
  shows "numpy_T (numpy_T x) = x"
proof -
  have len: "\<And>i. i < length (rows x) \<Longrightarrow> length (rows x ! i) = shape1 x"
    using assms by (simp add: valid_ndarray_def)
  have "map (\<lambda>j. map (\<lambda>r. r ! j) (map (\<lambda>j. map (\<lambda>r. r ! j) (rows x)) [0 ..< shape1 x]))
          [0 ..< length (rows x)] = rows x"
  proof (rule nth_equalityI)
    show "length (map (\<lambda>j. map (\<lambda>r. r ! j) (map (\<lambda>j. map (\<lambda>r. r ! j) (rows x)) [0 ..< shape1 x]))
          [0 ..< length (rows x)]) = length (rows x)"
      by simp
  next
    fix i
    assume "i < length (map (\<lambda>j. map (\<lambda>r. r ! j) (map (\<lambda>j. map (\<lambda>r. r ! j) (rows x)) [0 ..< shape1 x]))
          [0 ..< length (rows x)])"
    then have i: "i < length (rows x)" by simp
    have "map (\<lambda>r. r ! i) (map (\<lambda>j. map (\<lambda>r. r ! j) (rows x)) [0 ..< shape1 x]) = rows x ! i"
      by (rule nth_equalityI) (simp_all add: len [OF i] i)
    then show "map (\<lambda>j. map (\<lambda>r. r ! j) (map (\<lambda>j. map (\<lambda>r. r ! j) (rows x)) [0 ..< shape1 x]))
          [0 ..< length (rows x)] ! i = rows x ! i"
      using i by simp
  qed
  then show ?thesis by (simp add: numpy_T_def shape0_def)
qed

lemma getitem_cols_all:
  assumes "valid_ndarray x"
  shows "getitem_cols x 0 (int (shape1 x)) = x"
proof -
  have "map (py_slice 0 (int (shape1 x))) (rows x) = rows x"
    using assms by (auto simp: valid_ndarray_def py_slice_from_0 intro: map_idI)
  then show ?thesis by (simp add: getitem_cols_def slice_index_def)
qed

lemma numpy_concatenate_single:
  "numpy_concatenate [Numeric (Arr x)] = Inr x" "numpy_concatenate [Flags (Arr x)] = Inr x"
  by (simp_all add: numpy_concatenate_def shape0_def map_nth)

lemma single_target_round_trip:
  assumes g: "getattr attrs data t = Inr (Numeric (Arr x)) \<or> getattr attrs data t = Inr (Flags (Arr x))"
    and v: "valid_ndarray x" and s: "sizes t = Some (int (shape1 x))"
  shows "EncodeFeatureProcess attrs [t] data test = Inr (numpy_T x)
         \<and> (\<exists>out. DecodeFeatureProcess [t] sizes (numpy_T x) test' = Inr out
                \<and> (getattr attrs' out t = Inr (Numeric (Arr x))
                     \<or> getattr attrs' out t = Inr (Flags (Arr x))))"
proof -
  have e: "EncodeFeatureProcess attrs [t] data test = Inr (numpy_T x)"
    using g by (auto simp: EncodeFeatureProcess_def numpy_concatenate_single)
  have t: "t = ''f0'' \<or> t = ''spectrogram'' \<or> t = ''aperiodicity'' \<or> t = ''mfcc'' \<or> t = ''voiced''"
    using g by (auto simp: getattr_def split: if_splits)
  have "\<exists>out. DecodeFeatureProcess [t] sizes (numpy_T x) test' = Inr out
          \<and> (getattr attrs' out t = Inr (Numeric (Arr x)) \<or> getattr attrs' out t = Inr (Flags (Arr x)))"
    using t s
    by (auto simp: DecodeFeatureProcess_def numpy_T_numpy_T [OF v] getitem_cols_all [OF v]
        decode_lookup_def getattr_def Let_def)
  with e show ?thesis by simp
qed

text \<open>
  C1. The round trip fails as soon as a second target follows a first of positive width.
  Take a feature of one frame with \<open>f0 = [[1]]\<close> and \<open>mfcc = [[2, 3]]\<close>, the targets
  \<open>f0, mfcc\<close> and the widths 1 and 2. Encoding gives the tensor \<open>[[1], [2], [3]]\<close>.
  Decoding cuts the feature axis at \<^verbatim>\<open>zip([0] + lens[:-1], lens)\<close>, which is
  \<open>(0, 1), (1, 2)\<close>: the widths themselves stand where the running sums \<open>(0, 1), (1, 3)\<close>
  belong, so \<open>mfcc\<close> comes back as \<open>[[2]]\<close>, one column short.
\<close>

theorem DecodeFeatureProcess_loses_columns:
  "EncodeFeatureProcess attrs [''f0'', ''mfcc'']
     \<lparr>f0 = Arr \<lparr>shape1 = 1, rows = [[1::int]]\<rparr>, spectrogram = Nan, aperiodicity = Nan,
      mfcc = Arr \<lparr>shape1 = 2, rows = [[2, 3]]\<rparr>, voiced = Nan\<rparr> False
     = Inr \<lparr>shape1 = 1, rows = [[1], [2], [3]]\<rparr>
   \<and> DecodeFeatureProcess [''f0'', ''mfcc''] [''f0'' \<mapsto> 1, ''mfcc'' \<mapsto> 2]
        \<lparr>shape1 = 1, rows = [[1], [2], [3::int]]\<rparr> False
     = Inr \<lparr>f0 = Arr \<lparr>shape1 = 1, rows = [[1]]\<rparr>, spectrogram = Nan, aperiodicity = Nan,
            mfcc = Arr \<lparr>shape1 = 1, rows = [[2]]\<rparr>, voiced = Nan\<rparr>"
  by (simp add: EncodeFeatureProcess_def getattr_def numpy_concatenate_def numpy_T_def shape0_def
      DecodeFeatureProcess_def decode_lookup_def getitem_cols_def py_slice_def slice_index_def
      Let_def)

section \<open>The path split\<close>

lemma take_slice_index_nonneg: "0 \<le> k \<Longrightarrow> take (slice_index k (length xs)) xs = take (nat k) xs"
  by (simp add: slice_index_nonneg min_def)

lemma drop_slice_index_nonneg: "0 \<le> k \<Longrightarrow> drop (slice_index k (length xs)) xs = drop (nat k) xs"
  by (simp add: slice_index_nonneg min_def)

lemma create_runs:
  assumes len: "length input_glob = length target_glob" and n: "0 \<le> num_test"
  shows "create shuffle seed num_test input_glob target_glob
    = Inr \<lparr>train_paths = drop (nat num_test) (shuffle seed (zip (sort input_glob) (sort target_glob))),
           test_paths = take (nat num_test) (shuffle seed (zip (sort input_glob) (sort target_glob))),
           train_for_evaluate_paths = take (nat num_test) (drop (nat num_test) (shuffle seed (zip (sort input_glob) (sort target_glob))))\<rparr>"
  unfolding create_def Let_def
  using len n by (simp only: take_slice_index_nonneg drop_slice_index_nonneg length_sort if_False simp_thms)


lemma mset_drop_take: "mset (drop k xs) + mset (take k xs) = mset xs"
proof -
  have "mset (take k xs @ drop k xs) = mset xs" by (simp only: append_take_drop_id)
  then show ?thesis by (simp only: mset_append add.commute)
qed

text \<open>
  C9. Let the two listings have the same length, let the input listing name each file
  once (as a directory listing does), let the number of test pairs be no less than 0, and
  let the shuffle return a permutation of its list. Then \<open>create\<close> returns; the shuffled
  list, a function of the seed and the listings, is the test list followed by the train
  list; the two have no pair in common and hold together exactly the pairs of the full
  list; the test list has \<open>num_test\<close> pairs when there are that many; and the train_eval
  list is the first \<open>num_test\<close> pairs of the train list.
\<close>

theorem create_split:
  assumes perm: "mset (shuffle seed (zip (sort input_glob) (sort target_glob)))
                   = mset (zip (sort input_glob) (sort target_glob))"
    and len: "length input_glob = length target_glob"
    and dist: "distinct input_glob"
    and n: "0 \<le> num_test"
  shows "\<exists>r. create shuffle seed num_test input_glob target_glob = Inr r
           \<and> test_paths r @ train_paths r = shuffle seed (zip (sort input_glob) (sort target_glob))
           \<and> set (train_paths r) \<inter> set (test_paths r) = {}
           \<and> mset (train_paths r) + mset (test_paths r) = mset (zip (sort input_glob) (sort target_glob))
           \<and> set (train_paths r) \<union> set (test_paths r) = set (zip (sort input_glob) (sort target_glob))
           \<and> (nat num_test \<le> length input_glob \<longrightarrow> length (test_paths r) = nat num_test)
           \<and> train_for_evaluate_paths r = take (nat num_test) (train_paths r)"
proof -
  define every where "every = zip (sort input_glob) (sort target_glob)"
  define pairs where "pairs = shuffle seed every"
  define k where "k = nat num_test"
  let ?r = "\<lparr>train_paths = drop k pairs, test_paths = take k pairs,
             train_for_evaluate_paths = take k (drop k pairs)\<rparr>"
  have p: "mset pairs = mset every" using perm by (simp only: pairs_def every_def)
  have run: "create shuffle seed num_test input_glob target_glob = Inr ?r"
    unfolding pairs_def every_def k_def by (rule create_runs [OF len n])
  have "distinct (sort input_glob)" using dist by simp
  then have "distinct every" unfolding every_def by (rule distinct_zipI1)
  then have d: "distinct pairs" using mset_eq_imp_distinct_iff [OF p] by simp
  have sz: "length pairs = length input_glob"
    using mset_eq_length [OF p] len by (simp add: every_def)
  have 1: "test_paths ?r @ train_paths ?r = pairs" by simp
  have 2: "set (train_paths ?r) \<inter> set (test_paths ?r) = {}"
    using d set_take_disj_set_drop_if_distinct [of pairs k k] by auto
  have 3: "mset (train_paths ?r) + mset (test_paths ?r) = mset every"
    using p by (simp add: mset_drop_take)
  have "set_mset (mset (train_paths ?r) + mset (test_paths ?r)) = set_mset (mset every)"
    by (simp only: 3)
  then have 4: "set (train_paths ?r) \<union> set (test_paths ?r) = set every"
    by (simp only: set_mset_union set_mset_mset)
  have 5: "nat num_test \<le> length input_glob \<longrightarrow> length (test_paths ?r) = nat num_test"
    using sz by (simp add: k_def)
  have 6: "train_for_evaluate_paths ?r = take (nat num_test) (train_paths ?r)"
    by (simp add: k_def)
  show ?thesis
    using run 1 2 3 4 5 6 unfolding pairs_def [symmetric] every_def [symmetric]
    by (intro exI [of _ ?r] conjI) (simp_all add: pairs_def every_def)
qed

theorem create_split_witness:
  "mset (rev (zip (sort [2, 1, 3::nat]) (sort [20, 10, 30::nat])))
      = mset (zip (sort [2, 1, 3::nat]) (sort [20, 10, 30::nat]))
   \<and> length [2, 1, 3::nat] = length [20, 10, 30::nat]
   \<and> distinct [2, 1, 3::nat] \<and> (0::int) \<le> 1
   \<and> (\<exists>r. create (\<lambda>seed. rev) () 1 [2, 1, 3::nat] [20, 10, 30::nat] = Inr r
        \<and> test_paths r = [(3, 30)] \<and> train_paths r = [(2, 20), (1, 10)]
        \<and> train_for_evaluate_paths r = [(2, 20)]
        \<and> set (train_paths r) \<inter> set (test_paths r) = {}
        \<and> length (test_paths r) = nat 1)"
proof -
  let ?sh = "\<lambda>seed::unit. rev :: (nat \<times> nat) list \<Rightarrow> (nat \<times> nat) list"
  have perm: "mset (?sh () (zip (sort [2, 1, 3::nat]) (sort [20, 10, 30::nat])))
      = mset (zip (sort [2, 1, 3::nat]) (sort [20, 10, 30::nat]))"
    by (simp only: mset_rev)
  have len: "length [2, 1, 3::nat] = length [20, 10, 30::nat]" by simp
  have dist: "distinct [2, 1, 3::nat]" by simp
  have n: "(0::int) \<le> 1" by simp
  have srt: "sort [2, 1, 3::nat] = [1, 2, 3]" "sort [20, 10, 30::nat] = [10, 20, 30]"
    by simp_all
  have run: "create ?sh () 1 [2, 1, 3::nat] [20, 10, 30::nat]
      = Inr \<lparr>train_paths = [(2, 20), (1, 10)], test_paths = [(3, 30)],
              train_for_evaluate_paths = [(2, 20)]\<rparr>"
    by (simp add: create_def slice_index_def Let_def)
  obtain r where r: "create ?sh () 1 [2, 1, 3::nat] [20, 10, 30::nat] = Inr r"
    "set (train_paths r) \<inter> set (test_paths r) = {}"
    "nat 1 \<le> length [2, 1, 3::nat] \<longrightarrow> length (test_paths r) = nat 1"
    using create_split [where shuffle = ?sh and seed = "()", OF perm len dist n] by blast
  have l: "length (test_paths r) = nat 1" using r(3) by simp
  have e: "r = \<lparr>train_paths = [(2, 20), (1, 10)], test_paths = [(3, 30)],
              train_for_evaluate_paths = [(2, 20)]\<rparr>"
    using r(1) run by simp
  have "\<exists>r. create ?sh () 1 [2, 1, 3::nat] [20, 10, 30::nat] = Inr r
        \<and> test_paths r = [(3, 30)] \<and> train_paths r = [(2, 20), (1, 10)]
        \<and> train_for_evaluate_paths r = [(2, 20)]
        \<and> set (train_paths r) \<inter> set (test_paths r) = {}
        \<and> length (test_paths r) = nat 1"
    using r(1,2) l e by (intro exI [of _ r]) simp
  then show ?thesis using perm len dist n by blast
qed

section \<open>Normalizing and denormalizing\<close>

text \<open>Arrays built by position, and broadcasting onto the shape of the first operand.\<close>

lemma shape_tabulate [simp]: "shape0 (tabulate r c f) = r" "shape1 (tabulate r c f) = c"
  by (simp_all add: tabulate_def shape0_def)

lemma valid_tabulate [simp]: "valid_ndarray (tabulate r c f)"
  by (auto simp: tabulate_def valid_ndarray_def)

lemma item_tabulate [simp]: "i < r \<Longrightarrow> j < c \<Longrightarrow> item (tabulate r c f) i j = f i j"
  by (simp add: tabulate_def item_def)

lemma tabulate_cong:
  assumes "\<And>i j. i < r \<Longrightarrow> j < c \<Longrightarrow> f i j = g i j"
  shows "tabulate r c f = tabulate r c g"
  using assms by (simp add: tabulate_def)

lemma tabulate_item:
  assumes "valid_ndarray x"
  shows "tabulate (shape0 x) (shape1 x) (item x) = x"
proof -
  have "map (\<lambda>i. map (item x i) [0 ..< shape1 x]) [0 ..< length (rows x)] = rows x"
  proof (rule nth_equalityI)
    show "length (map (\<lambda>i. map (item x i) [0 ..< shape1 x]) [0 ..< length (rows x)]) = length (rows x)"
      by simp
  next
    fix i assume "i < length (map (\<lambda>i. map (item x i) [0 ..< shape1 x]) [0 ..< length (rows x)])"
    then have i: "i < length (rows x)" by simp
    then have l: "length (rows x ! i) = shape1 x"
      using assms by (simp add: valid_ndarray_def)
    have "map (item x i) [0 ..< shape1 x] = rows x ! i"
      by (rule nth_equalityI) (simp_all add: l item_def)
    then show "map (\<lambda>i. map (item x i) [0 ..< shape1 x]) [0 ..< length (rows x)] ! i = rows x ! i"
      using i by simp
  qed
  then show ?thesis by (simp add: tabulate_def shape0_def)
qed

lemma broadcast_index_same [simp]: "i < n \<Longrightarrow> broadcast_index n i = i"
  by (auto simp: broadcast_index_def)

lemma broadcast_item_same [simp]:
  "i < shape0 x \<Longrightarrow> j < shape1 x \<Longrightarrow> broadcast_item x i j = item x i j"
  by (simp add: broadcast_item_def)

lemma broadcast_index_less:
  "n = k \<or> n = 1 \<Longrightarrow> i < k \<Longrightarrow> broadcast_index n i < n"
  by (auto simp: broadcast_index_def)

lemma broadcast_shape_fit: "n = k \<or> n = 1 \<Longrightarrow> broadcast_shape k n = Some k"
  by (auto simp: broadcast_shape_def)

lemma numpy_binary_fit:
  assumes "broadcasts_to y x"
  shows "numpy_binary f x y
           = Inr (tabulate (shape0 x) (shape1 x) (\<lambda>i j. f (item x i j) (broadcast_item y i j)))"
proof -
  have "broadcast_shape (shape0 x) (shape0 y) = Some (shape0 x)"
    "broadcast_shape (shape1 x) (shape1 y) = Some (shape1 x)"
    using assms by (simp_all add: broadcasts_to_def broadcast_shape_fit)
  then have "numpy_binary f x y
      = Inr (tabulate (shape0 x) (shape1 x) (\<lambda>i j. f (broadcast_item x i j) (broadcast_item y i j)))"
    by (simp add: numpy_binary_def)
  also have "tabulate (shape0 x) (shape1 x) (\<lambda>i j. f (broadcast_item x i j) (broadcast_item y i j))
      = tabulate (shape0 x) (shape1 x) (\<lambda>i j. f (item x i j) (broadcast_item y i j))"
    by (rule tabulate_cong) simp
  finally show ?thesis .
qed

lemma broadcast_item_sqrt:
  assumes "broadcasts_to v x" "i < shape0 x" "j < shape1 x"
  shows "broadcast_item (numpy_sqrt v) i j = sqrt (broadcast_item v i j)"
proof -
  have "broadcast_index (shape0 v) i < shape0 v" "broadcast_index (shape1 v) j < shape1 v"
    using assms by (auto simp: broadcasts_to_def intro: broadcast_index_less)
  then show ?thesis by (simp add: broadcast_item_def numpy_sqrt_def)
qed

lemma broadcasts_to_sqrt:
  "broadcasts_to v x \<Longrightarrow> shape0 d = shape0 x \<Longrightarrow> shape1 d = shape1 x \<Longrightarrow> broadcasts_to (numpy_sqrt v) d"
  by (simp add: broadcasts_to_def numpy_sqrt_def)

lemma broadcasts_to_shape:
  "broadcasts_to m x \<Longrightarrow> shape0 d = shape0 x \<Longrightarrow> shape1 d = shape1 x \<Longrightarrow> broadcasts_to m d"
  by (simp add: broadcasts_to_def)

lemma positive_broadcast_item:
  assumes "positive v" "broadcasts_to v x" "i < shape0 x" "j < shape1 x"
  shows "0 < broadcast_item v i j"
proof -
  have i: "broadcast_index (shape0 v) i < length (rows v)"
    and j: "broadcast_index (shape1 v) j < shape1 v"
    using assms(2-4) by (auto simp: broadcasts_to_def shape0_def intro: broadcast_index_less)
  have "length (rows v ! broadcast_index (shape0 v) i) = shape1 v"
    using assms(2) i by (simp add: broadcasts_to_def valid_ndarray_def)
  then have "rows v ! broadcast_index (shape0 v) i ! broadcast_index (shape1 v) j
      \<in> set (rows v ! broadcast_index (shape0 v) i)"
    using j by simp
  moreover have "rows v ! broadcast_index (shape0 v) i \<in> set (rows v)"
    using i by simp
  ultimately show ?thesis
    using assms(1) by (auto simp: positive_def broadcast_item_def item_def)
qed

lemma normalize_fit:
  assumes m: "broadcasts_to mean x" and v: "broadcasts_to var x"
  shows "normalize x mean var
           = Inr (tabulate (shape0 x) (shape1 x)
                   (\<lambda>i j. (item x i j - broadcast_item mean i j) / sqrt (broadcast_item var i j)))"
proof -
  let ?d = "tabulate (shape0 x) (shape1 x) (\<lambda>i j. item x i j - broadcast_item mean i j)"
  have 1: "numpy_binary (-) x mean = Inr ?d" by (rule numpy_binary_fit [OF m])
  have "broadcasts_to (numpy_sqrt var) ?d" using v by (simp add: broadcasts_to_sqrt)
  then have "numpy_binary (/) ?d (numpy_sqrt var)
      = Inr (tabulate (shape0 ?d) (shape1 ?d) (\<lambda>i j. item ?d i j / broadcast_item (numpy_sqrt var) i j))"
    by (rule numpy_binary_fit)
  also have "tabulate (shape0 ?d) (shape1 ?d) (\<lambda>i j. item ?d i j / broadcast_item (numpy_sqrt var) i j)
      = tabulate (shape0 x) (shape1 x)
          (\<lambda>i j. (item x i j - broadcast_item mean i j) / sqrt (broadcast_item var i j))"
    unfolding shape_tabulate by (rule tabulate_cong) (simp add: broadcast_item_sqrt [OF v])
  finally show ?thesis using 1 by (simp add: normalize_def)
qed

lemma denormalize_fit:
  assumes m: "broadcasts_to mean x" and v: "broadcasts_to var x"
  shows "denormalize x mean var
           = Inr (tabulate (shape0 x) (shape1 x)
                   (\<lambda>i j. item x i j * sqrt (broadcast_item var i j) + broadcast_item mean i j))"
proof -
  let ?p = "tabulate (shape0 x) (shape1 x) (\<lambda>i j. item x i j * sqrt (broadcast_item var i j))"
  have "broadcasts_to (numpy_sqrt var) x" using v by (simp add: broadcasts_to_sqrt)
  then have "numpy_binary (*) x (numpy_sqrt var)
      = Inr (tabulate (shape0 x) (shape1 x) (\<lambda>i j. item x i j * broadcast_item (numpy_sqrt var) i j))"
    by (rule numpy_binary_fit)
  also have "tabulate (shape0 x) (shape1 x) (\<lambda>i j. item x i j * broadcast_item (numpy_sqrt var) i j) = ?p"
    by (rule tabulate_cong) (simp add: broadcast_item_sqrt [OF v])
  finally have 1: "numpy_binary (*) x (numpy_sqrt var) = Inr ?p" .
  have "broadcasts_to mean ?p" using m by (simp add: broadcasts_to_shape)
  then have "numpy_binary (+) ?p mean
      = Inr (tabulate (shape0 ?p) (shape1 ?p) (\<lambda>i j. item ?p i j + broadcast_item mean i j))"
    by (rule numpy_binary_fit)
  also have "tabulate (shape0 ?p) (shape1 ?p) (\<lambda>i j. item ?p i j + broadcast_item mean i j)
      = tabulate (shape0 x) (shape1 x)
          (\<lambda>i j. item x i j * sqrt (broadcast_item var i j) + broadcast_item mean i j)"
    unfolding shape_tabulate by (rule tabulate_cong) simp
  finally show ?thesis using 1 by (simp add: denormalize_def)
qed

lemma setitem_unvoiced:
  assumes "shape0 vo = shape0 a" "shape1 vo = shape1 a"
  shows "setitem_mask a (numpy_invert vo) 0
           = Inr (tabulate (shape0 a) (shape1 a) (\<lambda>i j. if item vo i j then item a i j else 0))"
proof -
  have "setitem_mask a (numpy_invert vo) 0
      = Inr (tabulate (shape0 a) (shape1 a) (\<lambda>i j. if item (numpy_invert vo) i j then 0 else item a i j))"
    using assms by (simp add: setitem_mask_def numpy_invert_def)
  also have "tabulate (shape0 a) (shape1 a) (\<lambda>i j. if item (numpy_invert vo) i j then 0 else item a i j)
      = tabulate (shape0 a) (shape1 a) (\<lambda>i j. if item vo i j then item a i j else 0)"
    by (rule tabulate_cong) (simp add: numpy_invert_def assms)
  finally show ?thesis .
qed

lemma denormalize_normalized:
  assumes x: "valid_ndarray x" and m: "broadcasts_to mean x" and v: "broadcasts_to var x"
    and p: "positive var"
  shows "denormalize (tabulate (shape0 x) (shape1 x)
            (\<lambda>i j. (item x i j - broadcast_item mean i j) / sqrt (broadcast_item var i j))) mean var
         = Inr x"
proof -
  let ?n = "tabulate (shape0 x) (shape1 x)
              (\<lambda>i j. (item x i j - broadcast_item mean i j) / sqrt (broadcast_item var i j))"
  have "denormalize ?n mean var
      = Inr (tabulate (shape0 ?n) (shape1 ?n)
               (\<lambda>i j. item ?n i j * sqrt (broadcast_item var i j) + broadcast_item mean i j))"
    by (rule denormalize_fit) (simp_all add: broadcasts_to_shape [OF m] broadcasts_to_shape [OF v])
  also have "tabulate (shape0 ?n) (shape1 ?n)
               (\<lambda>i j. item ?n i j * sqrt (broadcast_item var i j) + broadcast_item mean i j)
      = tabulate (shape0 x) (shape1 x) (item x)"
    unfolding shape_tabulate
  proof (rule tabulate_cong)
    fix i j assume ij: "i < shape0 x" "j < shape1 x"
    have "0 < broadcast_item var i j" by (rule positive_broadcast_item [OF p v ij])
    then have "sqrt (broadcast_item var i j) \<noteq> 0" by simp
    then show "item ?n i j * sqrt (broadcast_item var i j) + broadcast_item mean i j = item x i j"
      using ij by simp
  qed
  also have "\<dots> = x" by (rule tabulate_item [OF x])
  finally show ?thesis .
qed

lemma denormalize_normalized_f0:
  assumes m: "broadcasts_to mean x" and v: "broadcasts_to var x" and p: "positive var"
    and s: "shape0 vo = shape0 x" "shape1 vo = shape1 x"
  shows "\<exists>y. denormalize (tabulate (shape0 x) (shape1 x)
            (\<lambda>i j. if item vo i j
                    then (item x i j - broadcast_item mean i j) / sqrt (broadcast_item var i j)
                    else 0)) mean var = Inr y
         \<and> setitem_mask y (numpy_invert vo) 0
             = Inr (tabulate (shape0 x) (shape1 x) (\<lambda>i j. if item vo i j then item x i j else 0))"
proof -
  let ?n = "tabulate (shape0 x) (shape1 x)
            (\<lambda>i j. if item vo i j
                    then (item x i j - broadcast_item mean i j) / sqrt (broadcast_item var i j)
                    else 0)"
  let ?y = "tabulate (shape0 x) (shape1 x)
               (\<lambda>i j. item ?n i j * sqrt (broadcast_item var i j) + broadcast_item mean i j)"
  have bm: "broadcasts_to mean ?n" and bv: "broadcasts_to var ?n"
    by (simp_all add: broadcasts_to_shape [OF m] broadcasts_to_shape [OF v])
  have 1: "denormalize ?n mean var = Inr ?y"
    using denormalize_fit [OF bm bv] by simp
  have "setitem_mask ?y (numpy_invert vo) 0
      = Inr (tabulate (shape0 x) (shape1 x) (\<lambda>i j. if item vo i j then item ?y i j else 0))"
    using setitem_unvoiced [of vo ?y] s by simp
  also have "tabulate (shape0 x) (shape1 x) (\<lambda>i j. if item vo i j then item ?y i j else 0)
      = tabulate (shape0 x) (shape1 x) (\<lambda>i j. if item vo i j then item x i j else 0)"
  proof (rule tabulate_cong)
    fix i j assume ij: "i < shape0 x" "j < shape1 x"
    have "0 < broadcast_item var i j" by (rule positive_broadcast_item [OF p v ij])
    then have "sqrt (broadcast_item var i j) \<noteq> 0" by simp
    then show "(if item vo i j then item ?y i j else 0) = (if item vo i j then item x i j else 0)"
      using ij by simp
  qed
  finally show ?thesis using 1 by blast
qed

text \<open>
  C3. Take a well-formed feature and moments that fit it, with every variance positive.
  AcousticFeatureNormalizeProcess returns a feature in which each of spectrogram,
  aperiodicity and mfcc is \<open>(value - mean) / sqrt variance\<close> position by position, f0 is
  the same expression at the voiced positions and exactly 0 at the unvoiced ones, and the
  voiced flags are those of the input. AcousticFeatureDenormalizeProcess with the same
  moments, applied to that result, returns: spectrogram, aperiodicity, mfcc and the voiced
  flags are the original ones, and f0 is the original at every voiced position (and 0 at
  the unvoiced ones). Over the real numbers the equalities are exact; the floating-point
  rounding that the claim allows for is outside the model.
\<close>

theorem denormalize_normalize_voiced:
  assumes w: "well_formed_feature data" and fit: "moments_fit mean var data"
  shows "\<exists>n d. AcousticFeatureNormalizeProcess mean var data test = Inr n
           \<and> f0 n = tabulate (shape0 (f0 data)) (shape1 (f0 data))
                      (\<lambda>i j. if item (voiced data) i j
                              then (item (f0 data) i j - broadcast_item (f0 mean) i j)
                                     / sqrt (broadcast_item (f0 var) i j)
                              else 0)
           \<and> spectrogram n = tabulate (shape0 (spectrogram data)) (shape1 (spectrogram data))
                      (\<lambda>i j. (item (spectrogram data) i j - broadcast_item (spectrogram mean) i j)
                                / sqrt (broadcast_item (spectrogram var) i j))
           \<and> aperiodicity n = tabulate (shape0 (aperiodicity data)) (shape1 (aperiodicity data))
                      (\<lambda>i j. (item (aperiodicity data) i j - broadcast_item (aperiodicity mean) i j)
                                / sqrt (broadcast_item (aperiodicity var) i j))
           \<and> mfcc n = tabulate (shape0 (mfcc data)) (shape1 (mfcc data))
                      (\<lambda>i j. (item (mfcc data) i j - broadcast_item (mfcc mean) i j)
                                / sqrt (broadcast_item (mfcc var) i j))
           \<and> voiced n = voiced data
           \<and> AcousticFeatureDenormalizeProcess mean var n test' = Inr d
           \<and> f0 d = tabulate (shape0 (f0 data)) (shape1 (f0 data))
                      (\<lambda>i j. if item (voiced data) i j then item (f0 data) i j else 0)
           \<and> (\<forall>i j. i < shape0 (f0 data) \<and> j < shape1 (f0 data) \<and> item (voiced data) i j
                  \<longrightarrow> item (f0 d) i j = item (f0 data) i j)
           \<and> spectrogram d = spectrogram data \<and> aperiodicity d = aperiodicity data
           \<and> mfcc d = mfcc data \<and> voiced d = voiced data"
proof -
  let ?norm = "\<lambda>x m v. tabulate (shape0 x) (shape1 x)
                 (\<lambda>i j. (item x i j - broadcast_item m i j) / sqrt (broadcast_item v i j))"
  let ?nf0 = "tabulate (shape0 (f0 data)) (shape1 (f0 data))
                      (\<lambda>i j. if item (voiced data) i j
                              then (item (f0 data) i j - broadcast_item (f0 mean) i j)
                                     / sqrt (broadcast_item (f0 var) i j)
                              else 0)"
  let ?n = "\<lparr>f0 = ?nf0,
             spectrogram = ?norm (spectrogram data) (spectrogram mean) (spectrogram var),
             aperiodicity = ?norm (aperiodicity data) (aperiodicity mean) (aperiodicity var),
             mfcc = ?norm (mfcc data) (mfcc mean) (mfcc var),
             voiced = voiced data\<rparr>"
  let ?df0 = "tabulate (shape0 (f0 data)) (shape1 (f0 data))
                      (\<lambda>i j. if item (voiced data) i j then item (f0 data) i j else 0)"
  let ?d = "\<lparr>f0 = ?df0, spectrogram = spectrogram data, aperiodicity = aperiodicity data,
             mfcc = mfcc data, voiced = voiced data\<rparr>"
  have b: "broadcasts_to (f0 mean) (f0 data)" "broadcasts_to (f0 var) (f0 data)"
    "broadcasts_to (spectrogram mean) (spectrogram data)"
    "broadcasts_to (spectrogram var) (spectrogram data)"
    "broadcasts_to (aperiodicity mean) (aperiodicity data)"
    "broadcasts_to (aperiodicity var) (aperiodicity data)"
    "broadcasts_to (mfcc mean) (mfcc data)" "broadcasts_to (mfcc var) (mfcc data)"
    and p: "positive (f0 var)" "positive (spectrogram var)" "positive (aperiodicity var)"
    "positive (mfcc var)"
    using fit by (simp_all add: moments_fit_def)
  have v: "valid_ndarray (spectrogram data)" "valid_ndarray (aperiodicity data)"
    "valid_ndarray (mfcc data)"
    and s: "shape0 (voiced data) = shape0 (f0 data)" "shape1 (voiced data) = shape1 (f0 data)"
    using w by (simp_all add: well_formed_feature_def)
  have nf: "normalize (f0 data) (f0 mean) (f0 var) = Inr (?norm (f0 data) (f0 mean) (f0 var))"
    by (rule normalize_fit [OF b(1,2)])
  have "setitem_mask (?norm (f0 data) (f0 mean) (f0 var)) (numpy_invert (voiced data)) 0
      = Inr (tabulate (shape0 (?norm (f0 data) (f0 mean) (f0 var)))
               (shape1 (?norm (f0 data) (f0 mean) (f0 var)))
               (\<lambda>i j. if item (voiced data) i j
                       then item (?norm (f0 data) (f0 mean) (f0 var)) i j else 0))"
    by (rule setitem_unvoiced) (simp_all add: s)
  also have "tabulate (shape0 (?norm (f0 data) (f0 mean) (f0 var)))
               (shape1 (?norm (f0 data) (f0 mean) (f0 var)))
               (\<lambda>i j. if item (voiced data) i j
                       then item (?norm (f0 data) (f0 mean) (f0 var)) i j else 0) = ?nf0"
    unfolding shape_tabulate by (rule tabulate_cong) simp
  finally have sf: "setitem_mask (?norm (f0 data) (f0 mean) (f0 var)) (numpy_invert (voiced data)) 0
      = Inr ?nf0" .
  have run_n: "AcousticFeatureNormalizeProcess mean var data test = Inr ?n"
    by (simp add: AcousticFeatureNormalizeProcess_def nf sf normalize_fit [OF b(3,4)]
        normalize_fit [OF b(5,6)] normalize_fit [OF b(7,8)])
  obtain y where y: "denormalize ?nf0 (f0 mean) (f0 var) = Inr y"
    "setitem_mask y (numpy_invert (voiced data)) 0 = Inr ?df0"
    using denormalize_normalized_f0 [OF b(1,2) p(1) s] by blast
  have run_d: "AcousticFeatureDenormalizeProcess mean var ?n test' = Inr ?d"
    by (simp add: AcousticFeatureDenormalizeProcess_def y
        denormalize_normalized [OF v(1) b(3,4) p(2)]
        denormalize_normalized [OF v(2) b(5,6) p(3)]
        denormalize_normalized [OF v(3) b(7,8) p(4)])
  have on_voiced: "\<forall>i j. i < shape0 (f0 data) \<and> j < shape1 (f0 data) \<and> item (voiced data) i j
                  \<longrightarrow> item (f0 ?d) i j = item (f0 data) i j"
    by simp
  show ?thesis
    using run_n run_d on_voiced by (intro exI [of _ ?n] exI [of _ ?d]) simp
qed

theorem denormalize_normalize_voiced_witness:
  "well_formed_feature example_feature \<and> moments_fit example_mean example_var example_feature
   \<and> (\<exists>n d. AcousticFeatureNormalizeProcess example_mean example_var example_feature False = Inr n
          \<and> f0 n = \<lparr>shape1 = 1, rows = [[10], [0], [10]]\<rparr>
          \<and> voiced n = voiced example_feature
          \<and> AcousticFeatureDenormalizeProcess example_mean example_var n False = Inr d
          \<and> f0 d = \<lparr>shape1 = 1, rows = [[100], [0], [100]]\<rparr>
          \<and> spectrogram d = spectrogram example_feature
          \<and> aperiodicity d = aperiodicity example_feature
          \<and> mfcc d = mfcc example_feature \<and> voiced d = voiced example_feature)"
proof -
  have w: "well_formed_feature example_feature"
    by (simp add: well_formed_feature_def example_feature_def valid_ndarray_def shape0_def)
  have fit: "moments_fit example_mean example_var example_feature"
    by (simp add: moments_fit_def broadcasts_to_def positive_def valid_ndarray_def shape0_def
        example_mean_def example_var_def example_feature_def)
  have sq: "sqrt 25 = (5::real)"
    by (rule real_sqrt_unique) simp_all
  obtain n d where r:
    "AcousticFeatureNormalizeProcess example_mean example_var example_feature False = Inr n"
    "f0 n = tabulate (shape0 (f0 example_feature)) (shape1 (f0 example_feature))
              (\<lambda>i j. if item (voiced example_feature) i j
                      then (item (f0 example_feature) i j - broadcast_item (f0 example_mean) i j)
                             / sqrt (broadcast_item (f0 example_var) i j)
                      else 0)"
    "voiced n = voiced example_feature"
    "AcousticFeatureDenormalizeProcess example_mean example_var n False = Inr d"
    "f0 d = tabulate (shape0 (f0 example_feature)) (shape1 (f0 example_feature))
              (\<lambda>i j. if item (voiced example_feature) i j then item (f0 example_feature) i j else 0)"
    "spectrogram d = spectrogram example_feature" "aperiodicity d = aperiodicity example_feature"
    "mfcc d = mfcc example_feature" "voiced d = voiced example_feature"
    using denormalize_normalize_voiced [OF w fit, of False False] by blast
  have n0: "f0 n = \<lparr>shape1 = 1, rows = [[10], [0], [10]]\<rparr>"
    unfolding r(2)
    by (simp add: tabulate_def shape0_def item_def broadcast_item_def broadcast_index_def
        example_feature_def example_mean_def example_var_def sq)
  have d0: "f0 d = \<lparr>shape1 = 1, rows = [[100], [0], [100]]\<rparr>"
    unfolding r(5)
    by (simp add: tabulate_def shape0_def item_def example_feature_def)
  show ?thesis
    using w fit r(1,3,4,6-9) n0 d0 by blast
qed

section \<open>What a transform does to its input\<close>




text \<open>
  With the references of the feature and of the moments in use, the normalization in
  the store computes the values of the normalization on values.
\<close>

lemma AcousticFeatureNormalizeProcess_in_store_values:
  assumes "allocated h data" "allocated h mean" "allocated h var"
  shows "case AcousticFeatureNormalizeProcess (feature_in h mean) (feature_in h var) (feature_in h data) test of
           Inl e \<Rightarrow> AcousticFeatureNormalizeProcess_in_store mean var h data test = Inl e
         | Inr n \<Rightarrow> (\<exists>h' out. AcousticFeatureNormalizeProcess_in_store mean var h data test = Inr (h', out)
                         \<and> feature_in h' out = n)"
  using assms
  by (auto simp: AcousticFeatureNormalizeProcess_def AcousticFeatureNormalizeProcess_in_store_def
      normalize_in_store_def new_floats_def feature_in_def allocated_def
      split: sum.splits)





end
